theory Spec2Isabelle
  imports Complex_Main "HOL-Library.AList"
begin

section \<open>Python values and number formatting\<close>

text \<open>
  The screening engine, the scoring system, the technical calculator and the EPS
  resolution of the stock screener, as functions. The definitions keep the names of the
  source; the underscore that starts a private name (\<^verbatim>\<open>_get_price_limit\<close>,
  \<^verbatim>\<open>_calculate_combo_bonus\<close>) is dropped.

  Floats are modelled by exact real numbers: comparisons and arithmetic are those of the
  source without rounding, and a frame holds finite numbers only (no NaN cell).
  A threshold of the configuration is an int or a float, which matters only for how
  an f-string prints it.
\<close>

datatype pynum = PyInt int | PyFloat real

fun num_val :: "pynum \<Rightarrow> real" where
  "num_val (PyInt i) = of_int i"
| "num_val (PyFloat r) = r"

definition digit_char :: "nat \<Rightarrow> char" where
  "digit_char d = ''0123456789'' ! d"

function str_nat :: "nat \<Rightarrow> string" where
  "str_nat n = (if n < 10 then [digit_char n] else str_nat (n div 10) @ [digit_char (n mod 10)])"
  by pat_completeness auto
termination
  by (relation "measure id") auto

declare str_nat.simps [simp del]

definition str_int :: "int \<Rightarrow> string" where
  "str_int i = (if i < 0 then ''-'' @ str_nat (nat (- i)) else str_nat (nat i))"

definition round_half_even :: "real \<Rightarrow> int" where
  "round_half_even x =
     (let f = \<lfloor>x\<rfloor>; d = x - of_int f
      in if d < 1 / 2 then f
         else if 1 / 2 < d then f + 1
         else if even f then f else f + 1)"

definition pad_zeros :: "nat \<Rightarrow> string \<Rightarrow> string" where
  "pad_zeros p s = replicate (p - length s) (CHR ''0'') @ s"

text \<open>The format specification \<^verbatim>\<open>:.pf\<close>: fixed point with \<open>p\<close> decimals.\<close>

definition fmt_f :: "nat \<Rightarrow> real \<Rightarrow> string" where
  "fmt_f p x =
     (let n = nat (round_half_even (\<bar>x\<bar> * 10 ^ p));
          ip = n div 10 ^ p;
          fp = n mod 10 ^ p
      in (if x < 0 then ''-'' else []) @ str_nat ip @
         (if p = 0 then [] else ''.'' @ pad_zeros p (str_nat fp)))"

text \<open>
  \<^verbatim>\<open>str\<close> of a float prints the shortest decimal that denotes it, with at least one
  decimal: the number of decimals is searched up to 17.
\<close>

fun decimals :: "nat \<Rightarrow> nat \<Rightarrow> real \<Rightarrow> nat" where
  "decimals 0 k x = k"
| "decimals (Suc fuel) k x =
     (if of_int \<lfloor>x * 10 ^ k\<rfloor> = x * 10 ^ k then k else decimals fuel (Suc k) x)"

definition str_float :: "real \<Rightarrow> string" where
  "str_float x = fmt_f (max 1 (decimals 17 0 x)) x"

fun py_str :: "pynum \<Rightarrow> string" where
  "py_str (PyInt i) = str_int i"
| "py_str (PyFloat r) = str_float r"

section \<open>Data frames and series\<close>

text \<open>
  A pandas frame: its column names and its rows. A row is read only at a column the
  frame has; reading a missing column is the source's \<^verbatim>\<open>KeyError\<close>, which every
  check catches. \<open>attrs_stock_id\<close> is \<^verbatim>\<open>attrs.get('stock_id')\<close>.
\<close>

record dataframe =
  columns :: "string list"
  rows :: "(string \<Rightarrow> real) list"
  attrs_stock_id :: "string option"

definition df_len :: "dataframe \<Rightarrow> nat" where
  "df_len df = length (rows df)"

definition df_empty :: "dataframe \<Rightarrow> bool" where
  "df_empty df = (rows df = [] \<or> columns df = [])"

definition has_col :: "dataframe \<Rightarrow> string \<Rightarrow> bool" where
  "has_col df c = (c \<in> set (columns df))"

definition col :: "dataframe \<Rightarrow> string \<Rightarrow> real list" where
  "col df c = map (\<lambda>r. r c) (rows df)"

definition tail :: "nat \<Rightarrow> 'a list \<Rightarrow> 'a list" where
  "tail n xs = drop (length xs - n) xs"

text \<open>\<^verbatim>\<open>s.iloc[-k]\<close> for \<open>1 \<le> k \<le> len(s)\<close>; every use below is guarded by a length test.\<close>

definition iloc_neg :: "'a list \<Rightarrow> nat \<Rightarrow> 'a" where
  "iloc_neg xs k = xs ! (length xs - k)"

text \<open>Aggregates of a series; \<open>None\<close> is the NaN pandas gives on an empty series.\<close>

definition mean :: "real list \<Rightarrow> real option" where
  "mean xs = (if xs = [] then None else Some (sum_list xs / real (length xs)))"

fun series_max :: "real list \<Rightarrow> real option" where
  "series_max [] = None"
| "series_max (x # xs) = Some (fold max xs x)"

fun series_min :: "real list \<Rightarrow> real option" where
  "series_min [] = None"
| "series_min (x # xs) = Some (fold min xs x)"

text \<open>
  \<^verbatim>\<open>s.rolling(window=w).max()\<close>: position \<open>i\<close> aggregates the \<open>w\<close> values that end at
  \<open>i\<close>, and is NaN (\<open>None\<close>) while fewer than \<open>w\<close> values are there.
\<close>

definition rolling :: "(real list \<Rightarrow> real option) \<Rightarrow> nat \<Rightarrow> real list \<Rightarrow> real option list" where
  "rolling agg w xs =
     map (\<lambda>i. if Suc i < w then None else agg (take w (drop (Suc i - w) xs))) [0..<length xs]"

text \<open>
  \<^verbatim>\<open>s.ewm(com=c, adjust=False).mean()\<close> with \<open>alpha = 1 / (1 + c)\<close>: the first value is
  kept, then \<open>y\<^sub>t = (1 - alpha) * y\<^sub>t\<^sub>-\<^sub>1 + alpha * x\<^sub>t\<close>.
\<close>

fun ewm_from :: "real \<Rightarrow> real \<Rightarrow> real list \<Rightarrow> real list" where
  "ewm_from alpha y [] = []"
| "ewm_from alpha y (x # xs) =
     (let y' = (1 - alpha) * y + alpha * x in y' # ewm_from alpha y' xs)"

definition ewm_mean :: "real \<Rightarrow> real list \<Rightarrow> real list" where
  "ewm_mean com xs =
     (case xs of [] \<Rightarrow> [] | x # rest \<Rightarrow> x # ewm_from (1 / (1 + com)) x rest)"

section \<open>The snapshot, the configuration and the engine\<close>

text \<open>
  A key of the snapshot dict is absent, holds \<^verbatim>\<open>None\<close>, or holds a value:
  \<^verbatim>\<open>d.get(k)\<close> and \<^verbatim>\<open>d.get(k, default)\<close> differ on the first two.
\<close>

datatype 'a field = Absent | PyNone | Val 'a

fun dict_get :: "'a field \<Rightarrow> 'a option" where
  "dict_get (Val v) = Some v"
| "dict_get _ = None"

fun dict_get_default :: "'a field \<Rightarrow> 'a \<Rightarrow> 'a option" where
  "dict_get_default Absent d = Some d"
| "dict_get_default PyNone d = None"
| "dict_get_default (Val v) d = Some v"

text \<open>Truthiness of a stock id (\<^verbatim>\<open>if stock_id:\<close>): neither \<^verbatim>\<open>None\<close> nor empty.\<close>

fun truthy_id :: "string option \<Rightarrow> bool" where
  "truthy_id None = False"
| "truthy_id (Some s) = (s \<noteq> [])"

record stock_data =
  sd_stock_id :: "string field"
  sd_eps :: "real field"
  sd_roe :: "real field"
  sd_trust_holding :: "real field"
  sd_type :: "string field"
  sd_price :: "dataframe option"
  sd_institutional :: "dataframe option"
  sd_margin :: "dataframe option"

text \<open>The argument of \<open>check_all_conditions\<close> is tested with \<^verbatim>\<open>isinstance(stock_data, dict)\<close>.\<close>

datatype py_arg = NotDict | Dict stock_data

text \<open>
  An entry \<^verbatim>\<open>{'enabled': ..., 'value': ...}\<close> of the parameters carries both fields, as
  every configuration the program builds does (\<^verbatim>\<open>get_screening_params\<close>); an entry
  that is missing is \<open>None\<close>. A plain flag is its truthiness.
\<close>

record cond =
  cond_enabled :: bool
  cond_value :: pynum

record limit_cond =
  lim_enabled :: bool
  lim_days :: "int option"

record params =
  min_conditions_to_pass :: "int option"
  market_twse :: bool
  market_otc :: bool
  volume_surge1 :: "cond option"
  volume_surge2 :: "cond option"
  volume_surge3 :: "cond option"
  min_volume :: "cond option"
  daily_kd_golden :: bool
  monthly_kd_golden :: bool
  above_ma20 :: bool
  break_60d_high :: bool
  trust_buy :: "cond option"
  trust_pct :: "cond option"
  trust_5d :: "cond option"
  trust_holding :: "cond option"
  inst_5d :: "cond option"
  margin_ratio :: "cond option"
  margin_5d :: "cond option"
  eps :: "cond option"
  roe :: "cond option"
  yield :: "cond option"
  daily_change :: "cond option"
  change_5d :: "cond option"
  exclude_warning :: bool
  exclude_disposition :: bool
  exclude_limit_up :: "limit_cond option"

text \<open>
  The engine object. An attribute that \<open>check_all_conditions\<close> sets is \<open>None\<close> until then
  (\<^verbatim>\<open>hasattr\<close> is false); once set it holds a Python value that may itself be
  \<^verbatim>\<open>None\<close>.
\<close>

record engine =
  self_params :: params
  min_conditions :: int
  current_stock_id :: "string option option"
  eps_attr :: "real option option"
  roe_attr :: "real option option"
  trust_holding_attr :: "real option option"

definition init_engine :: "params \<Rightarrow> engine" where
  "init_engine parameters =
     \<lparr>self_params = parameters,
      min_conditions = (case min_conditions_to_pass parameters of None \<Rightarrow> 3 | Some n \<Rightarrow> n),
      current_stock_id = None, eps_attr = None, roe_attr = None, trust_holding_attr = None\<rparr>"

section \<open>The real-data integrator\<close>

text \<open>
  \<open>RealDataIntegrationFinal\<close> answers from the network. Each of its methods catches every
  exception and returns a number, so an integrator is the answers it gives while one
  snapshot is evaluated, and the two flag lists it holds.
\<close>

record integrator =
  get_trust_holding_percentage :: "string option \<Rightarrow> real"
  get_trust_holding_change :: "string option \<Rightarrow> real"
  get_real_eps :: "string \<Rightarrow> real"
  get_real_roe :: "string \<Rightarrow> real"
  get_real_dividend_yield :: "string \<Rightarrow> real option \<Rightarrow> real"
  warning_stocks :: "string list"
  disposition_stocks :: "string list"

definition is_warning_or_disposition :: "integrator \<Rightarrow> string \<Rightarrow> bool \<times> bool" where
  "is_warning_or_disposition env stock_id =
     (stock_id \<in> set (warning_stocks env), stock_id \<in> set (disposition_stocks env))"

definition get_price_limit :: "integrator \<Rightarrow> string \<Rightarrow> real" where
  "get_price_limit env stock_id =
     (let (_, is_disposition) = is_warning_or_disposition env stock_id
      in if is_disposition then 5 else 10)"

text \<open>
  The loop of \<open>check_consecutive_limit_up\<close>: iteration \<open>i\<close> of \<open>n\<close> looks at the bar
  \<open>i\<close> places from the end and the bar before it.
\<close>

function limit_up_loop :: "real \<Rightarrow> real list \<Rightarrow> real list \<Rightarrow> nat \<Rightarrow> nat \<Rightarrow> nat \<Rightarrow> nat" where
  "limit_up_loop limit_threshold closes highs n i recent_consecutive =
     (if i < n then
        (if length closes < i + 2 then recent_consecutive
         else if 0 < iloc_neg closes (i + 2) then
           (if limit_threshold \<le>
                 (iloc_neg closes (i + 1) - iloc_neg closes (i + 2)) / iloc_neg closes (i + 2) * 100 \<and>
               \<bar>iloc_neg closes (i + 1) - iloc_neg highs (i + 1)\<bar> < iloc_neg closes (i + 2) * (1 / 1000)
            then limit_up_loop limit_threshold closes highs n (i + 1) (recent_consecutive + 1)
            else recent_consecutive)
         else limit_up_loop limit_threshold closes highs n (i + 1) recent_consecutive)
      else recent_consecutive)"
  by pat_completeness auto
termination
  by (relation "measure (\<lambda>(t, c, h, n, i, r). n - i)") auto

declare limit_up_loop.simps [simp del]

definition check_consecutive_limit_up ::
  "integrator \<Rightarrow> dataframe option \<Rightarrow> string \<Rightarrow> int \<Rightarrow> bool \<times> nat" where
  "check_consecutive_limit_up env price_df stock_id days =
     (case price_df of
        None \<Rightarrow> (False, 0)
      | Some df \<Rightarrow>
          if df_empty df \<or> int (df_len df) < days + 1 then (False, 0)
          else
            (let limit_threshold = get_price_limit env stock_id - 1 / 10;
                 n = nat (min days (int (df_len df) - 1))
             in if 0 < n \<and> \<not> (has_col df ''close'' \<and> (has_col df ''max'' \<or> has_col df ''high''))
                then (True, 0) \<comment> \<open>KeyError in the first iteration, caught\<close>
                else
                  (let recent_consecutive =
                         limit_up_loop limit_threshold (col df ''close'')
                           (col df (if has_col df ''max'' then ''max'' else ''high'')) n 0 0
                   in (int recent_consecutive < days, recent_consecutive))))"

section \<open>The checks of the screening engine\<close>

text \<open>
  Each check returns the verdict and the number it shows. A check's \<^verbatim>\<open>except\<close> clause
  returns the failing pair; here the only exception a well-typed frame can raise
  inside a check is the \<^verbatim>\<open>KeyError\<close> of a missing column, written as a test.
\<close>

subsection \<open>Volume\<close>

definition check_volume_surge_with_value :: "dataframe option \<Rightarrow> pynum \<Rightarrow> nat \<Rightarrow> bool \<times> real" where
  "check_volume_surge_with_value price_df threshold days =
     (case price_df of
        None \<Rightarrow> (False, 0)
      | Some df \<Rightarrow>
          if df_empty df \<or> df_len df < days + 1 then (False, 0)
          else if \<not> has_col df ''Trading_Volume'' then (False, 0)
          else
            (let latest_volume = last (col df ''Trading_Volume'')
             in case mean (butlast (tail (days + 1) (col df ''Trading_Volume''))) of
                  None \<Rightarrow> (False, 0)
                | Some avg_volume \<Rightarrow>
                    if 0 < avg_volume
                    then (let surge_ratio = latest_volume / avg_volume
                          in (num_val threshold \<le> surge_ratio, surge_ratio))
                    else (False, 0)))"

definition check_min_volume_with_value :: "dataframe option \<Rightarrow> pynum \<Rightarrow> bool \<times> real" where
  "check_min_volume_with_value price_df threshold =
     (case price_df of
        None \<Rightarrow> (False, 0)
      | Some df \<Rightarrow>
          if df_empty df then (False, 0)
          else if \<not> has_col df ''Trading_Volume'' then (False, 0)
          else
            (let latest_volume = last (col df ''Trading_Volume'');
                 threshold_shares = num_val threshold * 1000
             in (threshold_shares \<le> latest_volume, latest_volume)))"

subsection \<open>Technical indicators\<close>

text \<open>
  RSV over a window of \<open>w\<close> bars, with \<^verbatim>\<open>fillna(50)\<close>: 50 while the window is not full,
  and 50 where the window's high equals its low (0/0 for a bar whose close lies between
  its low and its high).
\<close>

definition rsv_series :: "nat \<Rightarrow> dataframe \<Rightarrow> real list" where
  "rsv_series w df =
     map (\<lambda>(c, h, l).
            case (h, l) of
              (Some high_w, Some low_w) \<Rightarrow>
                if high_w = low_w then 50 else (c - low_w) / (high_w - low_w) * 100
            | _ \<Rightarrow> 50)
       (zip (col df ''close'')
          (zip (rolling series_max w (col df ''max'')) (rolling series_min w (col df ''min''))))"

definition kd_lines :: "nat \<Rightarrow> dataframe \<Rightarrow> real list \<times> real list" where
  "kd_lines w df =
     (let k = ewm_mean 2 (rsv_series w df);
          d = ewm_mean 2 k
      in (k, d))"

definition kd_golden_with_value :: "nat \<Rightarrow> dataframe option \<Rightarrow> bool \<times> real option \<times> real option" where
  "kd_golden_with_value w price_df =
     (case price_df of
        None \<Rightarrow> (False, None, None)
      | Some df \<Rightarrow>
          if df_empty df \<or> df_len df < w then (False, None, None)
          else if \<not> (has_col df ''max'' \<and> has_col df ''min'' \<and> has_col df ''close'')
          then (False, None, None)
          else
            (let (k, d) = kd_lines w df
             in if 2 \<le> length k \<and> 2 \<le> length d then
                  (let curr_k = iloc_neg k 1;
                       curr_d = iloc_neg d 1;
                       prev_k = iloc_neg k 2;
                       prev_d = iloc_neg d 2;
                       golden_cross = (prev_k \<le> prev_d \<and> curr_d < curr_k)
                   in (golden_cross, Some curr_k, Some curr_d))
                else (False, None, None)))"

text \<open>The daily check uses 9 bars, the monthly one 20; their bodies are otherwise the same.\<close>

definition check_kd_golden_with_value :: "dataframe option \<Rightarrow> bool \<times> real option \<times> real option" where
  "check_kd_golden_with_value price_df = kd_golden_with_value 9 price_df"

definition check_monthly_kd_golden_with_value ::
  "dataframe option \<Rightarrow> bool \<times> real option \<times> real option" where
  "check_monthly_kd_golden_with_value price_df = kd_golden_with_value 20 price_df"

definition check_above_ma20_with_value :: "dataframe option \<Rightarrow> bool \<times> real option \<times> real option" where
  "check_above_ma20_with_value price_df =
     (case price_df of
        None \<Rightarrow> (False, None, None)
      | Some df \<Rightarrow>
          if df_empty df \<or> df_len df < 20 then (False, None, None)
          else if \<not> has_col df ''close'' then (False, None, None)
          else
            (let latest_price = last (col df ''close'')
             in case last (rolling mean 20 (col df ''close'')) of
                  None \<Rightarrow> (False, Some latest_price, None)
                | Some ma20 \<Rightarrow> (ma20 < latest_price, Some latest_price, Some ma20)))"

definition check_break_60d_high_with_value ::
  "dataframe option \<Rightarrow> bool \<times> real option \<times> real option" where
  "check_break_60d_high_with_value price_df =
     (case price_df of
        None \<Rightarrow> (False, None, None)
      | Some df \<Rightarrow>
          if df_empty df \<or> df_len df < 60 then (False, None, None)
          else if \<not> (has_col df ''max'' \<and> has_col df ''close'') then (False, None, None)
          else
            (let latest_price = last (col df ''close'')
             in case series_max (tail 60 (col df ''max'')) of
                  None \<Rightarrow> (False, Some latest_price, None)
                | Some high_60d \<Rightarrow> (high_60d \<le> latest_price, Some latest_price, Some high_60d)))"

subsection \<open>Institutional flow\<close>

definition check_trust_buy_with_value :: "dataframe option \<Rightarrow> pynum \<Rightarrow> bool \<times> real" where
  "check_trust_buy_with_value inst_df threshold =
     (case inst_df of
        None \<Rightarrow> (False, 0)
      | Some df \<Rightarrow>
          if df_empty df then (False, 0)
          else
            (let latest = last (rows df);
                 net_buy =
                   (if has_col df ''trust_net'' then latest ''trust_net''
                    else if has_col df ''Investment_Trust_buy'' \<and> has_col df ''Investment_Trust_sell''
                    then latest ''Investment_Trust_buy'' - latest ''Investment_Trust_sell''
                    else 0) / 1000
             in (num_val threshold \<le> net_buy, net_buy)))"

definition check_trust_pct_with_value ::
  "integrator \<Rightarrow> engine \<Rightarrow> dataframe option \<Rightarrow> pynum \<Rightarrow> bool \<times> real" where
  "check_trust_pct_with_value env self inst_df threshold =
     (let stock_id = (case inst_df of None \<Rightarrow> None | Some df \<Rightarrow> attrs_stock_id df)
      in if truthy_id stock_id then
           (let pct = get_trust_holding_percentage env stock_id
            in (num_val threshold \<le> pct, pct))
         else
           (case current_stock_id self of
              Some cid \<Rightarrow>
                (let pct = get_trust_holding_percentage env cid
                 in (num_val threshold \<le> pct, pct))
            | None \<Rightarrow> (False, 0)))"

definition sum_col :: "dataframe \<Rightarrow> string \<Rightarrow> nat \<Rightarrow> real" where
  \<comment> \<open>\<^verbatim>\<open>recent[c].sum()\<close> over the last \<open>n\<close> rows if the frame has the column, else 0\<close>
  "sum_col df c n = (if has_col df c then sum_list (tail n (col df c)) else 0)"

definition check_trust_5d_with_value :: "dataframe option \<Rightarrow> pynum \<Rightarrow> bool \<times> real" where
  "check_trust_5d_with_value inst_df threshold =
     (case inst_df of
        None \<Rightarrow> (False, 0)
      | Some df \<Rightarrow>
          if df_empty df \<or> df_len df < 5 then (False, 0)
          else
            (let total_buy = sum_col df ''Investment_Trust_Buy'' 5;
                 total_sell = sum_col df ''Investment_Trust_Sell'' 5;
                 net_buy = (total_buy - total_sell) / 1000
             in (num_val threshold \<le> net_buy, net_buy)))"

text \<open>
  \<open>trust_holding_attr\<close> is the attribute \<^verbatim>\<open>_trust_holding\<close>; comparing \<^verbatim>\<open>None\<close> with the
  threshold raises a \<^verbatim>\<open>TypeError\<close>, which the check catches.
\<close>

definition check_trust_holding_with_value ::
  "integrator \<Rightarrow> engine \<Rightarrow> dataframe option \<Rightarrow> pynum \<Rightarrow> bool \<times> real" where
  "check_trust_holding_with_value env self inst_df threshold =
     (case trust_holding_attr self of
        Some (Some holding) \<Rightarrow> (num_val threshold \<le> holding, holding)
      | Some None \<Rightarrow> (False, 0)
      | None \<Rightarrow>
          (let stock_id = (case inst_df of None \<Rightarrow> None | Some df \<Rightarrow> attrs_stock_id df)
           in if truthy_id stock_id then
                (let change = get_trust_holding_change env stock_id
                 in (num_val threshold \<le> change, change))
              else
                (case current_stock_id self of
                   Some cid \<Rightarrow>
                     (let change = get_trust_holding_change env cid
                      in (num_val threshold \<le> change, change))
                 | None \<Rightarrow> (False, 0))))"

definition check_inst_5d_with_value :: "dataframe option \<Rightarrow> pynum \<Rightarrow> bool \<times> real" where
  "check_inst_5d_with_value inst_df threshold =
     (case inst_df of
        None \<Rightarrow> (False, 0)
      | Some df \<Rightarrow>
          if df_empty df \<or> df_len df < 5 then (False, 0)
          else
            (let total_buy = sum_col df ''Foreign_Investor_Buy'' 5 + sum_col df ''Investment_Trust_Buy'' 5
                               + sum_col df ''Dealer_Buy'' 5;
                 total_sell = sum_col df ''Foreign_Investor_Sell'' 5 + sum_col df ''Investment_Trust_Sell'' 5
                               + sum_col df ''Dealer_Sell'' 5;
                 net_buy = (total_buy - total_sell) / 1000
             in (num_val threshold \<le> net_buy, net_buy)))"

subsection \<open>Margin\<close>

definition check_margin_ratio_with_value :: "dataframe option \<Rightarrow> pynum \<Rightarrow> bool \<times> real" where
  "check_margin_ratio_with_value margin_df threshold =
     (case margin_df of
        None \<Rightarrow> (False, 0)
      | Some df \<Rightarrow>
          if df_empty df then (False, 0)
          else
            (let latest = last (rows df)
             in if has_col df ''MarginPurchaseTotalBalance'' \<and> has_col df ''MarginPurchaseLimit'' then
                  (let balance = latest ''MarginPurchaseTotalBalance'';
                       limit = latest ''MarginPurchaseLimit''
                   in if 0 < limit
                      then (let ratio = balance / limit * 100 in (ratio < num_val threshold, ratio))
                      else (False, 0))
                else (False, 0)))"

definition check_margin_5d_with_value :: "dataframe option \<Rightarrow> pynum \<Rightarrow> bool \<times> real" where
  "check_margin_5d_with_value margin_df threshold =
     (case margin_df of
        None \<Rightarrow> (False, 0)
      | Some df \<Rightarrow>
          if df_empty df \<or> df_len df < 5 then (False, 0)
          else if has_col df ''MarginPurchaseTotalBalance'' then
            (let current = iloc_neg (rows df) 1 ''MarginPurchaseTotalBalance'';
                 past_5d = iloc_neg (rows df) 5 ''MarginPurchaseTotalBalance'';
                 change = (current - past_5d) / 1000
             in (num_val threshold \<le> change, change))
          else (False, 0))"

subsection \<open>Fundamentals\<close>

definition check_eps_with_value :: "integrator \<Rightarrow> stock_data \<Rightarrow> pynum \<Rightarrow> bool \<times> real" where
  "check_eps_with_value env stock_data threshold =
     (case dict_get (sd_eps stock_data) of
        Some eps_v \<Rightarrow> (num_val threshold < eps_v, eps_v)
      | None \<Rightarrow>
          (case dict_get (sd_stock_id stock_data) of
             Some stock_id \<Rightarrow>
               if stock_id \<noteq> [] then
                 (let eps_v = get_real_eps env stock_id in (num_val threshold < eps_v, eps_v))
               else (False, 0)
           | None \<Rightarrow> (False, 0)))"

definition check_roe_with_value :: "integrator \<Rightarrow> stock_data \<Rightarrow> pynum \<Rightarrow> bool \<times> real" where
  "check_roe_with_value env stock_data threshold =
     (case dict_get (sd_roe stock_data) of
        Some roe_v \<Rightarrow> (num_val threshold < roe_v, roe_v)
      | None \<Rightarrow>
          (case dict_get (sd_stock_id stock_data) of
             Some stock_id \<Rightarrow>
               if stock_id \<noteq> [] then
                 (let roe_v = get_real_roe env stock_id in (num_val threshold < roe_v, roe_v))
               else (False, 0)
           | None \<Rightarrow> (False, 0)))"

definition check_yield_with_value ::
  "integrator \<Rightarrow> stock_data \<Rightarrow> dataframe option \<Rightarrow> pynum \<Rightarrow> bool \<times> real" where
  "check_yield_with_value env stock_data price_df threshold =
     (case dict_get (sd_stock_id stock_data) of
        Some stock_id \<Rightarrow>
          if stock_id \<noteq> [] then
            (case (case price_df of
                     None \<Rightarrow> Some None
                   | Some df \<Rightarrow>
                       if df_empty df then Some None
                       else if has_col df ''close'' then Some (Some (last (col df ''close'')))
                       else None) of
               None \<Rightarrow> (False, 0)
             | Some current_price \<Rightarrow>
                 (let yield_rate = get_real_dividend_yield env stock_id current_price
                  in (num_val threshold < yield_rate, yield_rate)))
          else (False, 0)
      | None \<Rightarrow> (False, 0))"

subsection \<open>Price change\<close>

definition change_with_value :: "nat \<Rightarrow> nat \<Rightarrow> dataframe option \<Rightarrow> pynum \<Rightarrow> bool \<times> real" where
  \<comment> \<open>the shared body: at least \<open>n\<close> bars, the close \<open>k\<close> places from the end as the base\<close>
  "change_with_value n k price_df threshold =
     (case price_df of
        None \<Rightarrow> (False, 0)
      | Some df \<Rightarrow>
          if df_empty df \<or> df_len df < n then (False, 0)
          else if \<not> has_col df ''close'' then (False, 0)
          else
            (let latest_close = iloc_neg (col df ''close'') 1;
                 base_close = iloc_neg (col df ''close'') k
             in if 0 < base_close then
                  (let change_pct = (latest_close - base_close) / base_close * 100
                   in (\<bar>change_pct\<bar> \<le> num_val threshold, change_pct))
                else (False, 0)))"

definition check_daily_change_with_value :: "dataframe option \<Rightarrow> pynum \<Rightarrow> bool \<times> real" where
  "check_daily_change_with_value price_df threshold = change_with_value 2 2 price_df threshold"

definition check_5d_change_with_value :: "dataframe option \<Rightarrow> pynum \<Rightarrow> bool \<times> real" where
  "check_5d_change_with_value price_df threshold = change_with_value 5 5 price_df threshold"

subsection \<open>Exclusions\<close>

definition check_not_warning :: "integrator \<Rightarrow> stock_data \<Rightarrow> bool" where
  "check_not_warning env stock_data =
     (case dict_get (sd_stock_id stock_data) of
        Some stock_id \<Rightarrow>
          if stock_id \<noteq> [] then
            (let (is_warning, _) = is_warning_or_disposition env stock_id in \<not> is_warning)
          else True
      | None \<Rightarrow> True)"

definition check_not_disposition :: "integrator \<Rightarrow> stock_data \<Rightarrow> bool" where
  "check_not_disposition env stock_data =
     (case dict_get (sd_stock_id stock_data) of
        Some stock_id \<Rightarrow>
          if stock_id \<noteq> [] then
            (let (_, is_disposition) = is_warning_or_disposition env stock_id in \<not> is_disposition)
          else True
      | None \<Rightarrow> True)"

text \<open>
  The loop the engine runs itself when it has no stock id: \<open>i\<close> runs from 1 below \<open>m\<close>,
  with a fixed threshold of 9.9 percent.
\<close>

function own_limit_up_loop :: "dataframe \<Rightarrow> nat \<Rightarrow> nat \<Rightarrow> nat \<Rightarrow> nat" where
  "own_limit_up_loop df m i limit_up_days =
     (if i < m then
        (if df_len df \<le> i then limit_up_days
         else
           (let curr_close = iloc_neg (rows df) i ''close'';
                curr_high =
                  (if has_col df ''max'' then iloc_neg (rows df) i ''max''
                   else if has_col df ''high'' then iloc_neg (rows df) i ''high''
                   else curr_close);
                prev_close =
                  (if i + 1 < df_len df then iloc_neg (rows df) (i + 1) ''close'' else curr_close)
            in if 0 < prev_close then
                 (if 99 / 10 \<le> (curr_close - prev_close) / prev_close * 100 \<and>
                     \<bar>curr_close - curr_high\<bar> < prev_close * (1 / 1000)
                  then own_limit_up_loop df m (i + 1) (limit_up_days + 1)
                  else limit_up_days)
               else own_limit_up_loop df m (i + 1) limit_up_days))
      else limit_up_days)"
  by pat_completeness auto
termination
  by (relation "measure (\<lambda>(df, m, i, c). m - i)") auto

declare own_limit_up_loop.simps [simp del]

definition own_limit_up :: "dataframe \<Rightarrow> int \<Rightarrow> bool \<times> nat" where
  "own_limit_up df days =
     (let m = nat (min (days + 1) (int (df_len df)))
      in if 1 < m \<and> \<not> has_col df ''close'' then (True, 0) \<comment> \<open>KeyError in the first iteration, caught\<close>
         else (let limit_up_days = own_limit_up_loop df m 1 0
               in (int limit_up_days < days, limit_up_days)))"

definition check_not_limit_up_with_value ::
  "integrator \<Rightarrow> engine \<Rightarrow> dataframe option \<Rightarrow> int \<Rightarrow> bool \<times> nat" where
  "check_not_limit_up_with_value env self price_df days =
     (case price_df of
        None \<Rightarrow> (True, 0)
      | Some df \<Rightarrow>
          if df_empty df \<or> int (df_len df) < days then (True, 0)
          else
            (let stock_id = (case current_stock_id self of None \<Rightarrow> None | Some v \<Rightarrow> v)
             in if truthy_id stock_id
                then check_consecutive_limit_up env price_df (case stock_id of Some sid \<Rightarrow> sid | None \<Rightarrow> []) days
                else own_limit_up df days))"

section \<open>The texts of the display values\<close>

text \<open>
  A Python string is modelled by its UTF-8 bytes. The texts below are the literal parts
  of the engine's f-strings and of the scoring system's signals.
\<close>

definition txt_market :: string where
  \<comment> \<open>in English: market; code points U+5E02 U+5834\<close>
  "txt_market =
     [CHR 0xE5, CHR 0xB8, CHR 0x82, CHR 0xE5, CHR 0xA0, CHR 0xB4] @
     '': ''"

definition txt_surge_5d :: string where
  \<comment> \<open>in English: surge multiple; code points U+7206 U+91CF U+500D U+6578\<close>
  "txt_surge_5d =
     [CHR 0xE7, CHR 0x88, CHR 0x86, CHR 0xE9, CHR 0x87, CHR 0x8F, CHR 0xE5, CHR 0x80, CHR 0x8D,
      CHR 0xE6, CHR 0x95, CHR 0xB8] @
     '': ''"

definition txt_surge_20d :: string where
  \<comment> \<open>in English: 20-day surge; code points U+65E5 U+7206 U+91CF\<close>
  "txt_surge_20d =
     ''20'' @
     [CHR 0xE6, CHR 0x97, CHR 0xA5, CHR 0xE7, CHR 0x88, CHR 0x86, CHR 0xE9, CHR 0x87, CHR 0x8F] @
     '': ''"

definition txt_surge_60d :: string where
  \<comment> \<open>in English: 60-day surge; code points U+65E5 U+7206 U+91CF\<close>
  "txt_surge_60d =
     ''60'' @
     [CHR 0xE6, CHR 0x97, CHR 0xA5, CHR 0xE7, CHR 0x88, CHR 0x86, CHR 0xE9, CHR 0x87, CHR 0x8F] @
     '': ''"

definition txt_x_threshold :: string where
  \<comment> \<open>in English: x (threshold; code points U+9580 U+6ABB\<close>
  "txt_x_threshold =
     ''x ('' @
     [CHR 0xE9, CHR 0x96, CHR 0x80, CHR 0xE6, CHR 0xAA, CHR 0xBB] @
     '': ''"

definition txt_volume :: string where
  \<comment> \<open>in English: volume; code points U+6210 U+4EA4 U+91CF\<close>
  "txt_volume =
     [CHR 0xE6, CHR 0x88, CHR 0x90, CHR 0xE4, CHR 0xBA, CHR 0xA4, CHR 0xE9, CHR 0x87, CHR 0x8F] @
     '': ''"

definition txt_lots_threshold :: string where
  \<comment> \<open>in English: lots (threshold; code points U+5F35 U+9580 U+6ABB\<close>
  "txt_lots_threshold =
     [CHR 0xE5, CHR 0xBC, CHR 0xB5] @
     '' ('' @
     [CHR 0xE9, CHR 0x96, CHR 0x80, CHR 0xE6, CHR 0xAA, CHR 0xBB] @
     '': ''"

definition txt_lots_close :: string where
  \<comment> \<open>in English: lots); code points U+5F35\<close>
  "txt_lots_close =
     [CHR 0xE5, CHR 0xBC, CHR 0xB5] @
     '')''"

definition txt_monthly_k :: string where
  \<comment> \<open>in English: monthly K=; code points U+6708\<close>
  "txt_monthly_k =
     [CHR 0xE6, CHR 0x9C, CHR 0x88] @
     ''K=''"

definition txt_monthly_d :: string where
  \<comment> \<open>in English: , monthly D=; code points U+6708\<close>
  "txt_monthly_d =
     '', '' @
     [CHR 0xE6, CHR 0x9C, CHR 0x88] @
     ''D=''"

definition txt_monthly_kd_na :: string where
  \<comment> \<open>in English: monthly K=N/A, monthly D=N/A; code points U+6708 U+6708\<close>
  "txt_monthly_kd_na =
     [CHR 0xE6, CHR 0x9C, CHR 0x88] @
     ''K=N/A, '' @
     [CHR 0xE6, CHR 0x9C, CHR 0x88] @
     ''D=N/A''"

definition txt_price :: string where
  \<comment> \<open>in English: price; code points U+50F9 U+683C\<close>
  "txt_price =
     [CHR 0xE5, CHR 0x83, CHR 0xB9, CHR 0xE6, CHR 0xA0, CHR 0xBC] @
     '': ''"

definition txt_price_ma20_na :: string where
  \<comment> \<open>in English: price: N/A, MA20: N/A; code points U+50F9 U+683C\<close>
  "txt_price_ma20_na =
     [CHR 0xE5, CHR 0x83, CHR 0xB9, CHR 0xE6, CHR 0xA0, CHR 0xBC] @
     '': N/A, MA20: N/A''"

definition txt_high_60d :: string where
  \<comment> \<open>in English: , 60-day high; code points U+65E5 U+9AD8\<close>
  "txt_high_60d =
     '', 60'' @
     [CHR 0xE6, CHR 0x97, CHR 0xA5, CHR 0xE9, CHR 0xAB, CHR 0x98] @
     '': ''"

definition txt_price_high_na :: string where
  \<comment> \<open>in English: price: N/A, 60-day high: N/A; code points U+50F9 U+683C U+65E5 U+9AD8\<close>
  "txt_price_high_na =
     [CHR 0xE5, CHR 0x83, CHR 0xB9, CHR 0xE6, CHR 0xA0, CHR 0xBC] @
     '': N/A, 60'' @
     [CHR 0xE6, CHR 0x97, CHR 0xA5, CHR 0xE9, CHR 0xAB, CHR 0x98] @
     '': N/A''"

definition txt_trust_buy :: string where
  \<comment> \<open>in English: trust net buy; code points U+6295 U+4FE1 U+8CB7 U+8D85\<close>
  "txt_trust_buy =
     [CHR 0xE6, CHR 0x8A, CHR 0x95, CHR 0xE4, CHR 0xBF, CHR 0xA1, CHR 0xE8, CHR 0xB2, CHR 0xB7,
      CHR 0xE8, CHR 0xB6, CHR 0x85] @
     '': ''"

definition txt_trust_pct :: string where
  \<comment> \<open>in English: trust holding; code points U+6295 U+4FE1 U+6301 U+80A1\<close>
  "txt_trust_pct =
     [CHR 0xE6, CHR 0x8A, CHR 0x95, CHR 0xE4, CHR 0xBF, CHR 0xA1, CHR 0xE6, CHR 0x8C, CHR 0x81,
      CHR 0xE8, CHR 0x82, CHR 0xA1] @
     '': ''"

definition txt_pct_threshold :: string where
  \<comment> \<open>in English: % (threshold; code points U+9580 U+6ABB\<close>
  "txt_pct_threshold =
     ''% ('' @
     [CHR 0xE9, CHR 0x96, CHR 0x80, CHR 0xE6, CHR 0xAA, CHR 0xBB] @
     '': ''"

definition txt_trust_5d :: string where
  \<comment> \<open>in English: trust 5-day net buy; code points U+6295 U+4FE1 U+65E5 U+8CB7 U+8D85\<close>
  "txt_trust_5d =
     [CHR 0xE6, CHR 0x8A, CHR 0x95, CHR 0xE4, CHR 0xBF, CHR 0xA1] @
     ''5'' @
     [CHR 0xE6, CHR 0x97, CHR 0xA5, CHR 0xE8, CHR 0xB2, CHR 0xB7, CHR 0xE8, CHR 0xB6, CHR 0x85] @
     '': ''"

definition txt_trust_holding :: string where
  \<comment> \<open>in English: trust holding change; code points U+6295 U+4FE1 U+6301 U+80A1 U+8B8A U+5316\<close>
  "txt_trust_holding =
     [CHR 0xE6, CHR 0x8A, CHR 0x95, CHR 0xE4, CHR 0xBF, CHR 0xA1, CHR 0xE6, CHR 0x8C, CHR 0x81,
      CHR 0xE8, CHR 0x82, CHR 0xA1, CHR 0xE8, CHR 0xAE, CHR 0x8A, CHR 0xE5, CHR 0x8C, CHR 0x96] @
     '': ''"

definition txt_inst_5d :: string where
  \<comment> \<open>in English: institutional 5-day net buy; code points U+6CD5 U+4EBA U+65E5 U+8CB7 U+8D85\<close>
  "txt_inst_5d =
     [CHR 0xE6, CHR 0xB3, CHR 0x95, CHR 0xE4, CHR 0xBA, CHR 0xBA] @
     ''5'' @
     [CHR 0xE6, CHR 0x97, CHR 0xA5, CHR 0xE8, CHR 0xB2, CHR 0xB7, CHR 0xE8, CHR 0xB6, CHR 0x85] @
     '': ''"

definition txt_margin_ratio :: string where
  \<comment> \<open>in English: margin utilisation; code points U+878D U+8CC7 U+4F7F U+7528 U+7387\<close>
  "txt_margin_ratio =
     [CHR 0xE8, CHR 0x9E, CHR 0x8D, CHR 0xE8, CHR 0xB3, CHR 0x87, CHR 0xE4, CHR 0xBD, CHR 0xBF,
      CHR 0xE7, CHR 0x94, CHR 0xA8, CHR 0xE7, CHR 0x8E, CHR 0x87] @
     '': ''"

definition txt_pct_threshold_lt :: string where
  \<comment> \<open>in English: % (threshold: <; code points U+9580 U+6ABB\<close>
  "txt_pct_threshold_lt =
     ''% ('' @
     [CHR 0xE9, CHR 0x96, CHR 0x80, CHR 0xE6, CHR 0xAA, CHR 0xBB] @
     '': <''"

definition txt_margin_5d :: string where
  \<comment> \<open>in English: margin 5-day change; code points U+878D U+8CC7 U+65E5 U+589E U+6E1B\<close>
  "txt_margin_5d =
     [CHR 0xE8, CHR 0x9E, CHR 0x8D, CHR 0xE8, CHR 0xB3, CHR 0x87] @
     ''5'' @
     [CHR 0xE6, CHR 0x97, CHR 0xA5, CHR 0xE5, CHR 0xA2, CHR 0x9E, CHR 0xE6, CHR 0xB8, CHR 0x9B] @
     '': ''"

definition txt_threshold_gt :: string where
  \<comment> \<open>in English: (threshold: >; code points U+9580 U+6ABB\<close>
  "txt_threshold_gt =
     '' ('' @
     [CHR 0xE9, CHR 0x96, CHR 0x80, CHR 0xE6, CHR 0xAA, CHR 0xBB] @
     '': >''"

definition txt_pct_threshold_gt :: string where
  \<comment> \<open>in English: % (threshold: >; code points U+9580 U+6ABB\<close>
  "txt_pct_threshold_gt =
     ''% ('' @
     [CHR 0xE9, CHR 0x96, CHR 0x80, CHR 0xE6, CHR 0xAA, CHR 0xBB] @
     '': >''"

definition txt_yield :: string where
  \<comment> \<open>in English: dividend yield; code points U+6B96 U+5229 U+7387\<close>
  "txt_yield =
     [CHR 0xE6, CHR 0xAE, CHR 0x96, CHR 0xE5, CHR 0x88, CHR 0xA9, CHR 0xE7, CHR 0x8E, CHR 0x87] @
     '': ''"

definition txt_daily_change :: string where
  \<comment> \<open>in English: daily change; code points U+65E5 U+6F32 U+8DCC\<close>
  "txt_daily_change =
     [CHR 0xE6, CHR 0x97, CHR 0xA5, CHR 0xE6, CHR 0xBC, CHR 0xB2, CHR 0xE8, CHR 0xB7, CHR 0x8C] @
     '': ''"

definition txt_pct_threshold_pm :: string where
  \<comment> \<open>in English: % (threshold: +/-; code points U+9580 U+6ABB U+00B1\<close>
  "txt_pct_threshold_pm =
     ''% ('' @
     [CHR 0xE9, CHR 0x96, CHR 0x80, CHR 0xE6, CHR 0xAA, CHR 0xBB] @
     '': '' @
     [CHR 0xC2, CHR 0xB1]"

definition txt_change_5d :: string where
  \<comment> \<open>in English: 5-day change; code points U+65E5 U+6F32 U+8DCC\<close>
  "txt_change_5d =
     ''5'' @
     [CHR 0xE6, CHR 0x97, CHR 0xA5, CHR 0xE6, CHR 0xBC, CHR 0xB2, CHR 0xE8, CHR 0xB7, CHR 0x8C] @
     '': ''"

definition txt_not_warning :: string where
  \<comment> \<open>in English: not a warning stock; code points U+975E U+8B66 U+793A U+80A1\<close>
  "txt_not_warning =
     [CHR 0xE9, CHR 0x9D, CHR 0x9E, CHR 0xE8, CHR 0xAD, CHR 0xA6, CHR 0xE7, CHR 0xA4, CHR 0xBA,
      CHR 0xE8, CHR 0x82, CHR 0xA1]"

definition txt_warning :: string where
  \<comment> \<open>in English: warning stock; code points U+8B66 U+793A U+80A1\<close>
  "txt_warning =
     [CHR 0xE8, CHR 0xAD, CHR 0xA6, CHR 0xE7, CHR 0xA4, CHR 0xBA, CHR 0xE8, CHR 0x82, CHR 0xA1]"

definition txt_not_disposition :: string where
  \<comment> \<open>in English: not a disposition stock; code points U+975E U+8655 U+7F6E U+80A1\<close>
  "txt_not_disposition =
     [CHR 0xE9, CHR 0x9D, CHR 0x9E, CHR 0xE8, CHR 0x99, CHR 0x95, CHR 0xE7, CHR 0xBD, CHR 0xAE,
      CHR 0xE8, CHR 0x82, CHR 0xA1]"

definition txt_disposition :: string where
  \<comment> \<open>in English: disposition stock; code points U+8655 U+7F6E U+80A1\<close>
  "txt_disposition =
     [CHR 0xE8, CHR 0x99, CHR 0x95, CHR 0xE7, CHR 0xBD, CHR 0xAE, CHR 0xE8, CHR 0x82, CHR 0xA1]"

definition txt_limit_up :: string where
  \<comment> \<open>in English: consecutive limit-up; code points U+9023 U+7E8C U+6F32 U+505C\<close>
  "txt_limit_up =
     [CHR 0xE9, CHR 0x80, CHR 0xA3, CHR 0xE7, CHR 0xBA, CHR 0x8C, CHR 0xE6, CHR 0xBC, CHR 0xB2,
      CHR 0xE5, CHR 0x81, CHR 0x9C] @
     '': ''"

definition txt_days_threshold_lt :: string where
  \<comment> \<open>in English: days (threshold: <; code points U+5929 U+9580 U+6ABB\<close>
  "txt_days_threshold_lt =
     [CHR 0xE5, CHR 0xA4, CHR 0xA9] @
     '' ('' @
     [CHR 0xE9, CHR 0x96, CHR 0x80, CHR 0xE6, CHR 0xAA, CHR 0xBB] @
     '': <''"

definition txt_days_close :: string where
  \<comment> \<open>in English: days); code points U+5929\<close>
  "txt_days_close =
     [CHR 0xE5, CHR 0xA4, CHR 0xA9] @
     '')''"

definition sig_extreme_surge :: string where
  \<comment> \<open>in English: extreme volume surge; code points U+6975 U+5EA6 U+7206 U+91CF\<close>
  "sig_extreme_surge =
     [CHR 0xE6, CHR 0xA5, CHR 0xB5, CHR 0xE5, CHR 0xBA, CHR 0xA6, CHR 0xE7, CHR 0x88, CHR 0x86,
      CHR 0xE9, CHR 0x87, CHR 0x8F]"

definition sig_medium_surge :: string where
  \<comment> \<open>in English: medium volume surge; code points U+4E2D U+5EA6 U+7206 U+91CF\<close>
  "sig_medium_surge =
     [CHR 0xE4, CHR 0xB8, CHR 0xAD, CHR 0xE5, CHR 0xBA, CHR 0xA6, CHR 0xE7, CHR 0x88, CHR 0x86,
      CHR 0xE9, CHR 0x87, CHR 0x8F]"

definition sig_surge :: string where
  \<comment> \<open>in English: volume surge; code points U+7206 U+91CF\<close>
  "sig_surge =
     [CHR 0xE7, CHR 0x88, CHR 0x86, CHR 0xE9, CHR 0x87, CHR 0x8F]"

definition sig_kd_golden :: string where
  \<comment> \<open>in English: KD golden cross; code points U+9EC3 U+91D1 U+4EA4 U+53C9\<close>
  "sig_kd_golden =
     ''KD'' @
     [CHR 0xE9, CHR 0xBB, CHR 0x83, CHR 0xE9, CHR 0x87, CHR 0x91, CHR 0xE4, CHR 0xBA, CHR 0xA4,
      CHR 0xE5, CHR 0x8F, CHR 0x89]"

definition sig_new_high :: string where
  \<comment> \<open>in English: breaks to a new high; code points U+7A81 U+7834 U+65B0 U+9AD8\<close>
  "sig_new_high =
     [CHR 0xE7, CHR 0xAA, CHR 0x81, CHR 0xE7, CHR 0xA0, CHR 0xB4, CHR 0xE6, CHR 0x96, CHR 0xB0,
      CHR 0xE9, CHR 0xAB, CHR 0x98]"

definition sig_trust_buy :: string where
  \<comment> \<open>in English: trust net buy; code points U+6295 U+4FE1 U+8CB7 U+8D85\<close>
  "sig_trust_buy =
     [CHR 0xE6, CHR 0x8A, CHR 0x95, CHR 0xE4, CHR 0xBF, CHR 0xA1, CHR 0xE8, CHR 0xB2, CHR 0xB7,
      CHR 0xE8, CHR 0xB6, CHR 0x85]"

definition sig_trust_streak :: string where
  \<comment> \<open>in English: trust buying streak; code points U+6295 U+4FE1 U+9023 U+8CB7\<close>
  "sig_trust_streak =
     [CHR 0xE6, CHR 0x8A, CHR 0x95, CHR 0xE4, CHR 0xBF, CHR 0xA1, CHR 0xE9, CHR 0x80, CHR 0xA3,
      CHR 0xE8, CHR 0xB2, CHR 0xB7]"

definition sig_fundamental :: string where
  \<comment> \<open>in English: sound fundamentals; code points U+57FA U+672C U+9762 U+512A U+826F\<close>
  "sig_fundamental =
     [CHR 0xE5, CHR 0x9F, CHR 0xBA, CHR 0xE6, CHR 0x9C, CHR 0xAC, CHR 0xE9, CHR 0x9D, CHR 0xA2,
      CHR 0xE5, CHR 0x84, CHR 0xAA, CHR 0xE8, CHR 0x89, CHR 0xAF]"

definition sig_observing :: string where
  \<comment> \<open>in English: observing; code points U+89C0 U+5BDF U+4E2D\<close>
  "sig_observing =
     [CHR 0xE8, CHR 0xA7, CHR 0x80, CHR 0xE5, CHR 0xAF, CHR 0x9F, CHR 0xE4, CHR 0xB8, CHR 0xAD]"

fun str_opt :: "string option \<Rightarrow> string" where
  \<comment> \<open>how an f-string prints a value that is a string or \<^verbatim>\<open>None\<close>\<close>
  "str_opt None = ''None''"
| "str_opt (Some s) = s"

section \<open>Evaluating all conditions\<close>

text \<open>
  The result dict holds a bool per evaluated condition and, at the end, the three
  bookkeeping entries: an int, a bool and the dict of display values.
\<close>

datatype pyval = VBool bool | VInt int | VValues "(string \<times> string) list"

fun py_eq_True :: "pyval \<Rightarrow> bool" where
  \<comment> \<open>\<^verbatim>\<open>v == True\<close>\<close>
  "py_eq_True (VBool b) = b"
| "py_eq_True (VInt i) = (i = 1)"
| "py_eq_True (VValues d) = False"

fun truthy :: "pyval \<Rightarrow> bool" where
  "truthy (VBool b) = b"
| "truthy (VInt i) = (i \<noteq> 0)"
| "truthy (VValues d) = (d \<noteq> [])"

text \<open>
  One \<^verbatim>\<open>if\<close> block of \<open>check_all_conditions\<close> writes one key with its verdict into
  \<^verbatim>\<open>results\<close> and its display value into \<^verbatim>\<open>values\<close>. The blocks that run are listed
  in the order of the source: \<open>flag_block\<close> is a block guarded by a plain flag,
  \<open>cond_block\<close> one guarded by \<^verbatim>\<open>params.get(name, {}).get('enabled')\<close>, which then reads
  the entry's threshold.
\<close>

record block =
  b_key :: string
  b_passed :: bool
  b_display :: string

definition flag_block :: "bool \<Rightarrow> string \<Rightarrow> bool \<times> string \<Rightarrow> block list" where
  "flag_block flag key body =
     (if flag then [\<lparr>b_key = key, b_passed = fst body, b_display = snd body\<rparr>] else [])"

definition cond_block :: "cond option \<Rightarrow> string \<Rightarrow> (pynum \<Rightarrow> bool \<times> string) \<Rightarrow> block list" where
  "cond_block entry key body =
     (case entry of
        None \<Rightarrow> []
      | Some c \<Rightarrow>
          if cond_enabled c
          then [\<lparr>b_key = key, b_passed = fst (body (cond_value c)),
                 b_display = snd (body (cond_value c))\<rparr>]
          else [])"

definition limit_block :: "limit_cond option \<Rightarrow> string \<Rightarrow> (int \<Rightarrow> bool \<times> string) \<Rightarrow> block list" where
  "limit_block entry key body =
     (case entry of
        None \<Rightarrow> []
      | Some c \<Rightarrow>
          if lim_enabled c
          then (let days = (case lim_days c of None \<Rightarrow> 3 | Some n \<Rightarrow> n)
                in [\<lparr>b_key = key, b_passed = fst (body days), b_display = snd (body days)\<rparr>])
          else [])"

definition show_pair :: "string \<Rightarrow> string \<Rightarrow> string \<Rightarrow> real option \<Rightarrow> real option \<Rightarrow> string" where
  \<comment> \<open>two numbers with one decimal each, or the \<^verbatim>\<open>N/A\<close> text when one is \<^verbatim>\<open>None\<close>\<close>
  "show_pair label1 label2 na v1 v2 =
     (case (v1, v2) of
        (Some a, Some b) \<Rightarrow> label1 @ fmt_f 1 a @ label2 @ fmt_f 1 b
      | _ \<Rightarrow> na)"

definition condition_blocks ::
  "integrator \<Rightarrow> engine \<Rightarrow> stock_data \<Rightarrow> dataframe option \<Rightarrow> dataframe option \<Rightarrow>
   dataframe option \<Rightarrow> block list" where
  "condition_blocks env self stock_data price_df inst_df margin_df =
     flag_block (market_twse (self_params self)) ''market_twse''
       (let stock_type = dict_get_default (sd_type stock_data) ''unknown''
        in (stock_type = Some ''twse'', txt_market @ str_opt stock_type)) @
     flag_block (market_otc (self_params self)) ''market_otc''
       (let stock_type = dict_get_default (sd_type stock_data) ''unknown''
        in (stock_type = Some ''otc'', txt_market @ str_opt stock_type)) @
     cond_block (volume_surge1 (self_params self)) ''volume_surge_1_5x''
       (\<lambda>threshold.
          let (passed, ratio) = check_volume_surge_with_value price_df threshold 5
          in (passed, txt_surge_5d @ fmt_f 2 ratio @ txt_x_threshold @ py_str threshold @ ''x)'')) @
     cond_block (volume_surge2 (self_params self)) ''volume_surge_20d_3x''
       (\<lambda>threshold.
          let (passed, ratio) = check_volume_surge_with_value price_df threshold 20
          in (passed, txt_surge_20d @ fmt_f 2 ratio @ txt_x_threshold @ py_str threshold @ ''x)'')) @
     cond_block (volume_surge3 (self_params self)) ''volume_surge_60d_5x''
       (\<lambda>threshold.
          let (passed, ratio) = check_volume_surge_with_value price_df threshold 60
          in (passed, txt_surge_60d @ fmt_f 2 ratio @ txt_x_threshold @ py_str threshold @ ''x)'')) @
     cond_block (min_volume (self_params self)) ''min_volume''
       (\<lambda>threshold.
          let (passed, volume) = check_min_volume_with_value price_df threshold;
              volume_lots = (if volume \<noteq> 0 then volume / 1000 else 0)
          in (passed, txt_volume @ fmt_f 0 volume_lots @ txt_lots_threshold @ py_str threshold
                        @ txt_lots_close)) @
     flag_block (daily_kd_golden (self_params self)) ''daily_kd_golden''
       (let (passed, k_value, d_value) = check_kd_golden_with_value price_df
        in (passed, show_pair ''K='' '', D='' ''K=N/A, D=N/A'' k_value d_value)) @
     flag_block (monthly_kd_golden (self_params self)) ''monthly_kd_golden''
       (let (passed, k_value, d_value) = check_monthly_kd_golden_with_value price_df
        in (passed, show_pair txt_monthly_k txt_monthly_d txt_monthly_kd_na k_value d_value)) @
     flag_block (above_ma20 (self_params self)) ''above_ma20''
       (let (passed, price, ma20) = check_above_ma20_with_value price_df
        in (passed, show_pair txt_price '', MA20: '' txt_price_ma20_na price ma20)) @
     flag_block (break_60d_high (self_params self)) ''break_60d_high''
       (let (passed, price, high_60d) = check_break_60d_high_with_value price_df
        in (passed, show_pair txt_price txt_high_60d txt_price_high_na price high_60d)) @
     cond_block (trust_buy (self_params self)) ''trust_buy''
       (\<lambda>threshold.
          let (passed, buy_amount) = check_trust_buy_with_value inst_df threshold
          in (passed, txt_trust_buy @ fmt_f 0 buy_amount @ txt_lots_threshold @ py_str threshold
                        @ txt_lots_close)) @
     cond_block (trust_pct (self_params self)) ''trust_pct''
       (\<lambda>threshold.
          let (passed, pct) = check_trust_pct_with_value env self inst_df threshold
          in (passed, txt_trust_pct @ fmt_f 2 pct @ txt_pct_threshold @ py_str threshold @ ''%)'')) @
     cond_block (trust_5d (self_params self)) ''trust_5d''
       (\<lambda>threshold.
          let (passed, total_buy) = check_trust_5d_with_value inst_df threshold
          in (passed, txt_trust_5d @ fmt_f 0 total_buy @ txt_lots_threshold @ py_str threshold
                        @ txt_lots_close)) @
     cond_block (trust_holding (self_params self)) ''trust_holding''
       (\<lambda>threshold.
          let (passed, change) = check_trust_holding_with_value env self inst_df threshold
          in (passed, txt_trust_holding @ fmt_f 2 change @ txt_pct_threshold @ py_str threshold
                        @ ''%)'')) @
     cond_block (inst_5d (self_params self)) ''inst_5d''
       (\<lambda>threshold.
          let (passed, total_buy) = check_inst_5d_with_value inst_df threshold
          in (passed, txt_inst_5d @ fmt_f 0 total_buy @ txt_lots_threshold @ py_str threshold
                        @ txt_lots_close)) @
     cond_block (margin_ratio (self_params self)) ''margin_ratio''
       (\<lambda>threshold.
          let (passed, ratio) = check_margin_ratio_with_value margin_df threshold
          in (passed, txt_margin_ratio @ fmt_f 2 ratio @ txt_pct_threshold_lt @ py_str threshold
                        @ ''%)'')) @
     cond_block (margin_5d (self_params self)) ''margin_5d''
       (\<lambda>threshold.
          let (passed, change) = check_margin_5d_with_value margin_df threshold
          in (passed, txt_margin_5d @ fmt_f 0 change @ txt_lots_threshold @ py_str threshold
                        @ txt_lots_close)) @
     cond_block (eps (self_params self)) ''eps''
       (\<lambda>threshold.
          let (passed, eps_v) = check_eps_with_value env stock_data threshold
          in (passed, ''EPS: '' @ fmt_f 2 eps_v @ txt_threshold_gt @ py_str threshold @ '')'')) @
     cond_block (roe (self_params self)) ''roe''
       (\<lambda>threshold.
          let (passed, roe_v) = check_roe_with_value env stock_data threshold
          in (passed, ''ROE: '' @ fmt_f 2 roe_v @ txt_pct_threshold_gt @ py_str threshold @ ''%)'')) @
     cond_block (yield (self_params self)) ''yield''
       (\<lambda>threshold.
          let (passed, yield_rate) = check_yield_with_value env stock_data price_df threshold
          in (passed, txt_yield @ fmt_f 2 yield_rate @ txt_pct_threshold_gt @ py_str threshold
                        @ ''%)'')) @
     cond_block (daily_change (self_params self)) ''daily_change''
       (\<lambda>threshold.
          let (passed, change) = check_daily_change_with_value price_df threshold
          in (passed, txt_daily_change @ fmt_f 2 change @ txt_pct_threshold_pm @ py_str threshold
                        @ ''%)'')) @
     cond_block (change_5d (self_params self)) ''change_5d''
       (\<lambda>threshold.
          let (passed, change) = check_5d_change_with_value price_df threshold
          in (passed, txt_change_5d @ fmt_f 2 change @ txt_pct_threshold_pm @ py_str threshold
                        @ ''%)'')) @
     flag_block (exclude_warning (self_params self)) ''not_warning''
       (let passed = check_not_warning env stock_data
        in (passed, if passed then txt_not_warning else txt_warning)) @
     flag_block (exclude_disposition (self_params self)) ''not_disposition''
       (let passed = check_not_disposition env stock_data
        in (passed, if passed then txt_not_disposition else txt_disposition)) @
     limit_block (exclude_limit_up (self_params self)) ''not_limit_up''
       (\<lambda>days.
          let (passed, limit_days) = check_not_limit_up_with_value env self price_df days
          in (passed, txt_limit_up @ str_int (int limit_days) @ txt_days_threshold_lt @ str_int days
                        @ txt_days_close))"

definition record_block ::
  "block \<Rightarrow> (string \<times> pyval) list \<times> (string \<times> string) list \<Rightarrow>
   (string \<times> pyval) list \<times> (string \<times> string) list" where
  "record_block b st =
     (AList.update (b_key b) (VBool (b_passed b)) (fst st),
      AList.update (b_key b) (b_display b) (snd st))"

definition check_all_conditions ::
  "integrator \<Rightarrow> engine \<Rightarrow> py_arg \<Rightarrow> engine \<times> (string \<times> pyval) list" where
  "check_all_conditions env self arg =
     (case arg of
        NotDict \<Rightarrow>
          (self, [(''matched_count'', VInt 0), (''passed'', VBool False), (''values'', VValues [])])
      | Dict stock_data \<Rightarrow>
          (let self1 = self\<lparr>current_stock_id := Some (dict_get (sd_stock_id stock_data)),
                            eps_attr := Some (dict_get_default (sd_eps stock_data) 0),
                            roe_attr := Some (dict_get_default (sd_roe stock_data) 0),
                            trust_holding_attr := Some (dict_get_default (sd_trust_holding stock_data) 0)\<rparr>;
               price_df = sd_price stock_data;
               inst_df = map_option (\<lambda>df. df\<lparr>attrs_stock_id := dict_get (sd_stock_id stock_data)\<rparr>)
                           (sd_institutional stock_data);
               margin_df = sd_margin stock_data;
               st = fold record_block
                      (condition_blocks env self1 stock_data price_df inst_df margin_df) ([], []);
               matched_count = int (length (filter py_eq_True (map snd (fst st))));
               results = AList.update ''matched_count'' (VInt matched_count) (fst st);
               results = AList.update ''passed'' (VBool (min_conditions self1 \<le> matched_count)) results;
               results = AList.update ''values'' (VValues (snd st)) results
           in (self1, results)))"

section \<open>The technical calculator\<close>

text \<open>The stand-alone predicates of \<open>TechnicalCalculator\<close> on the K and D lines and on the closes.\<close>

definition check_golden_cross :: "real list \<Rightarrow> real list \<Rightarrow> bool" where
  "check_golden_cross k d =
     (if length k < 2 \<or> length d < 2 then False
      else
        (let cross = (iloc_neg d 1 < iloc_neg k 1 \<and> iloc_neg k 2 \<le> iloc_neg d 2);
             not_overbought = (iloc_neg k 1 < 80)
         in cross \<and> not_overbought))"

definition check_new_high :: "dataframe \<Rightarrow> nat \<Rightarrow> bool" where
  "check_new_high df days =
     (if df_len df < days + 1 then False
      else if \<not> has_col df ''close'' then False
      else
        (let current_price = last (col df ''close'')
         in case series_max (butlast (tail (days + 1) (col df ''close''))) of
              None \<Rightarrow> False
            | Some previous_high \<Rightarrow> previous_high < current_price))"

section \<open>The scoring system\<close>

definition weights :: "(string \<times> int) list" where
  "weights =
     [(''volume_surge_5x'', 20), (''volume_surge_3x'', 10), (''volume_surge_1_5x'', 5),
      (''min_volume'', 3),
      (''daily_kd_golden'', 10), (''monthly_kd_golden'', 8), (''above_ma20'', 5),
      (''break_60d_high'', 15),
      (''trust_buy'', 10), (''trust_pct'', 5), (''trust_5d'', 10), (''inst_5d'', 5),
      (''eps_positive'', 5), (''roe_above'', 5), (''yield_above'', 5),
      (''daily_change_moderate'', 3), (''change_5d_moderate'', 3), (''margin_ratio'', 2),
      (''margin_5d'', 2), (''not_warning'', 2), (''not_disposition'', 2), (''not_limit_up'', 3)]"

definition combo_bonus :: "(string \<times> int) list" where
  "combo_bonus =
     [(''perfect_volume'', 10), (''tech_fundamental'', 15), (''institutional_support'', 10)]"

definition bonus_of :: "string \<Rightarrow> int" where
  "bonus_of name = (case map_of combo_bonus name of Some b \<Rightarrow> b | None \<Rightarrow> 0)"

definition get_or_False :: "(string \<times> pyval) list \<Rightarrow> string \<Rightarrow> pyval" where
  \<comment> \<open>\<^verbatim>\<open>check_result.get(key, False)\<close>\<close>
  "get_or_False check_result key =
     (case map_of check_result key of None \<Rightarrow> VBool False | Some v \<Rightarrow> v)"

definition count_matched :: "(string \<times> pyval) list \<Rightarrow> string list \<Rightarrow> nat" where
  "count_matched check_result conditions =
     length (filter (\<lambda>c. truthy (get_or_False check_result c)) conditions)"

definition perfect_volume :: "(string \<times> pyval) list \<Rightarrow> bool" where
  "perfect_volume check_result =
     list_all (\<lambda>x. truthy (get_or_False check_result (''volume_surge_'' @ x))) [''1_5x'', ''3x'', ''5x'']"

definition calculate_combo_bonus :: "(string \<times> pyval) list \<Rightarrow> int" where
  "calculate_combo_bonus check_result =
     (let bonus = 0;
          bonus = (if perfect_volume check_result then bonus + bonus_of ''perfect_volume'' else bonus);
          tech_count = count_matched check_result [''daily_kd_golden'', ''above_ma20'', ''break_60d_high''];
          fund_count = count_matched check_result [''eps_positive'', ''roe_above'', ''yield_above''];
          bonus = (if 2 \<le> tech_count \<and> 2 \<le> fund_count
                   then bonus + bonus_of ''tech_fundamental'' else bonus);
          inst_count = count_matched check_result [''trust_buy'', ''trust_5d'', ''inst_5d''];
          bonus = (if 2 \<le> inst_count then bonus + bonus_of ''institutional_support'' else bonus)
      in bonus)"

definition get_grade :: "int \<Rightarrow> string" where
  "get_grade score =
     (if 90 \<le> score then ''A+''
      else if 80 \<le> score then ''A''
      else if 70 \<le> score then ''B+''
      else if 60 \<le> score then ''B''
      else ''C'')"

fun join :: "string \<Rightarrow> string list \<Rightarrow> string" where
  "join sep [] = []"
| "join sep [x] = x"
| "join sep (x # y # ys) = x @ sep @ join sep (y # ys)"

definition get_key_signal :: "string list \<Rightarrow> string" where
  "get_key_signal matched_conditions =
     (let signals =
            (if ''volume_surge_5x'' \<in> set matched_conditions then [sig_extreme_surge]
             else if ''volume_surge_3x'' \<in> set matched_conditions then [sig_medium_surge]
             else if ''volume_surge_1_5x'' \<in> set matched_conditions then [sig_surge]
             else []) @
            (if ''daily_kd_golden'' \<in> set matched_conditions then [sig_kd_golden] else []) @
            (if ''break_60d_high'' \<in> set matched_conditions then [sig_new_high] else []) @
            (if ''trust_buy'' \<in> set matched_conditions then [sig_trust_buy] else []) @
            (if ''trust_5d'' \<in> set matched_conditions then [sig_trust_streak] else []) @
            (if list_all (\<lambda>c. c \<in> set matched_conditions) [''eps_positive'', ''roe_above'']
             then [sig_fundamental] else [])
      in if signals \<noteq> [] then join '' + '' (take 3 signals) else sig_observing)"

record score =
  total_score :: int
  base_score :: int
  combo_score :: int
  grade :: string
  key_signal :: string
  matched_conditions :: "string list"

definition calculate_score :: "(string \<times> pyval) list \<Rightarrow> score" where
  "calculate_score check_result =
     (let matched = map fst (filter (\<lambda>(condition, passed).
                       condition \<in> fst ` set weights \<and> truthy passed) check_result);
          base = sum_list (map (\<lambda>condition. case map_of weights condition of
                                                 Some w \<Rightarrow> w | None \<Rightarrow> 0) matched);
          combo = calculate_combo_bonus check_result;
          total = min 100 (base + combo)
      in \<lparr>total_score = total, base_score = base, combo_score = combo, grade = get_grade total,
          key_signal = get_key_signal matched, matched_conditions = matched\<rparr>)"

section \<open>Resolving the EPS\<close>

text \<open>
  \<open>get_eps_guaranteed\<close> asks two providers in turn. What a provider call gives is an
  argument here: the number it returned, or \<open>None\<close> when the call raised, which the
  \<^verbatim>\<open>except\<close> clause of \<open>get_eps_guaranteed\<close> answers with the default.
\<close>

definition large_caps_eps :: "(string \<times> real) list" where
  "large_caps_eps =
     [(''2330'', 392 / 10), (''2454'', 725 / 10), (''2317'', 105 / 10), (''2308'', 112 / 10),
      (''2382'', 48 / 10), (''2303'', 28 / 10), (''2412'', 52 / 10), (''2886'', 21 / 10),
      (''2891'', 25 / 10), (''1301'', 38 / 10)]"

definition get_default_eps :: "string \<Rightarrow> real" where
  "get_default_eps stock_id =
     (case map_of large_caps_eps stock_id of Some v \<Rightarrow> v | None \<Rightarrow> 25 / 10)"

definition get_eps_guaranteed :: "real option \<Rightarrow> real option \<Rightarrow> string \<Rightarrow> real" where
  "get_eps_guaranteed eps_from_twse eps_from_finmind stock_id =
     (case eps_from_twse of
        None \<Rightarrow> get_default_eps stock_id
      | Some eps_twse \<Rightarrow>
          if 0 < eps_twse then eps_twse
          else
            (case eps_from_finmind of
               None \<Rightarrow> get_default_eps stock_id
             | Some eps_finmind \<Rightarrow>
                 if 0 < eps_finmind then eps_finmind
                 else get_default_eps stock_id))"

section \<open>The configuration as a table, and reading a result\<close>

definition is_enabled :: "cond option \<Rightarrow> bool" where
  \<comment> \<open>\<^verbatim>\<open>params.get(name, {}).get('enabled')\<close>\<close>
  "is_enabled entry = (case entry of None \<Rightarrow> False | Some c \<Rightarrow> cond_enabled c)"

definition lim_is_enabled :: "limit_cond option \<Rightarrow> bool" where
  "lim_is_enabled entry = (case entry of None \<Rightarrow> False | Some c \<Rightarrow> lim_enabled c)"

text \<open>
  The key under which each condition writes its verdict, with the flag of the
  configuration that enables it, in the order of the source.
\<close>

definition condition_table :: "params \<Rightarrow> (string \<times> bool) list" where
  "condition_table p =
     [(''market_twse'', market_twse p), (''market_otc'', market_otc p),
      (''volume_surge_1_5x'', is_enabled (volume_surge1 p)),
      (''volume_surge_20d_3x'', is_enabled (volume_surge2 p)),
      (''volume_surge_60d_5x'', is_enabled (volume_surge3 p)),
      (''min_volume'', is_enabled (min_volume p)),
      (''daily_kd_golden'', daily_kd_golden p), (''monthly_kd_golden'', monthly_kd_golden p),
      (''above_ma20'', above_ma20 p), (''break_60d_high'', break_60d_high p),
      (''trust_buy'', is_enabled (trust_buy p)), (''trust_pct'', is_enabled (trust_pct p)),
      (''trust_5d'', is_enabled (trust_5d p)), (''trust_holding'', is_enabled (trust_holding p)),
      (''inst_5d'', is_enabled (inst_5d p)),
      (''margin_ratio'', is_enabled (margin_ratio p)), (''margin_5d'', is_enabled (margin_5d p)),
      (''eps'', is_enabled (eps p)), (''roe'', is_enabled (roe p)), (''yield'', is_enabled (yield p)),
      (''daily_change'', is_enabled (daily_change p)), (''change_5d'', is_enabled (change_5d p)),
      (''not_warning'', exclude_warning p), (''not_disposition'', exclude_disposition p),
      (''not_limit_up'', lim_is_enabled (exclude_limit_up p))]"

definition enabled_keys :: "params \<Rightarrow> string list" where
  "enabled_keys p = concat (map (\<lambda>(key, en). if en then [key] else []) (condition_table p))"

definition bookkeeping_keys :: "string list" where
  "bookkeeping_keys = [''matched_count'', ''passed'', ''values'']"

definition verdicts :: "(string \<times> pyval) list \<Rightarrow> (string \<times> pyval) list" where
  \<comment> \<open>the entries of a result other than the bookkeeping ones\<close>
  "verdicts res = filter (\<lambda>(key, v). key \<notin> set bookkeeping_keys) res"

definition display_values :: "(string \<times> pyval) list \<Rightarrow> (string \<times> string) list" where
  \<comment> \<open>\<^verbatim>\<open>result['values']\<close>\<close>
  "display_values res = (case map_of res ''values'' of Some (VValues vs) \<Rightarrow> vs | _ \<Rightarrow> [])"

text \<open>The blocks that run on a snapshot, and what they have written when the bookkeeping starts.\<close>

definition blocks_of :: "integrator \<Rightarrow> engine \<Rightarrow> stock_data \<Rightarrow> block list" where
  "blocks_of env self sd =
     condition_blocks env
       (self\<lparr>current_stock_id := Some (dict_get (sd_stock_id sd)),
              eps_attr := Some (dict_get_default (sd_eps sd) 0),
              roe_attr := Some (dict_get_default (sd_roe sd) 0),
              trust_holding_attr := Some (dict_get_default (sd_trust_holding sd) 0)\<rparr>)
       sd (sd_price sd)
       (map_option (\<lambda>df. df\<lparr>attrs_stock_id := dict_get (sd_stock_id sd)\<rparr>) (sd_institutional sd))
       (sd_margin sd)"

definition recorded ::
  "integrator \<Rightarrow> engine \<Rightarrow> stock_data \<Rightarrow> (string \<times> pyval) list \<times> (string \<times> string) list" where
  "recorded env self sd = fold record_block (blocks_of env self sd) ([], [])"

section \<open>What the specification says, for comparison\<close>


definition latest_volume :: "dataframe option \<Rightarrow> real" where
  "latest_volume price_df =
     (case price_df of None \<Rightarrow> 0 | Some df \<Rightarrow> last (col df ''Trading_Volume''))"


text \<open>
  The breakout in the specification's words: the latest close is at least the highest
  high of the 60 bars before today.
\<close>

definition claimed_break_60d_high :: "dataframe \<Rightarrow> bool" where
  "claimed_break_60d_high df =
     (61 \<le> df_len df \<and>
      (case series_max (butlast (tail 61 (col df ''max''))) of
         None \<Rightarrow> False
       | Some previous_high \<Rightarrow> previous_high \<le> last (col df ''close'')))"

text \<open>
  The conditions that ask the integrator while a snapshot is evaluated: the trust-holding
  percentage, the dividend yield, the two flag lists, the price limit of the limit-up
  exclusion, and the EPS or ROE that the snapshot does not carry.
\<close>

definition uses_integrator :: "params \<Rightarrow> stock_data \<Rightarrow> bool" where
  "uses_integrator p sd =
     (is_enabled (trust_pct p) \<or> is_enabled (yield p) \<or> exclude_warning p \<or>
      exclude_disposition p \<or> lim_is_enabled (exclude_limit_up p) \<or>
      is_enabled (eps p) \<and> dict_get (sd_eps sd) = None \<or>
      is_enabled (roe p) \<and> dict_get (sd_roe sd) = None)"

section \<open>Example inputs\<close>

definition price_row :: "real \<Rightarrow> real \<Rightarrow> real \<Rightarrow> real \<Rightarrow> string \<Rightarrow> real" where
  \<comment> \<open>a bar: close, high, low and volume\<close>
  "price_row c hi lo vol name =
     (if name = ''close'' then c else if name = ''max'' then hi
      else if name = ''min'' then lo else if name = ''Trading_Volume'' then vol else 0)"

definition price_frame :: "(string \<Rightarrow> real) list \<Rightarrow> dataframe" where
  "price_frame rs =
     \<lparr>columns = [''open'', ''max'', ''min'', ''close'', ''Trading_Volume''], rows = rs,
      attrs_stock_id = None\<rparr>"

text \<open>Fourteen bars in the range 0 to 100 whose closes end 100, 100, 100, 100, 40, 100.\<close>

definition kd_example :: dataframe where
  "kd_example =
     price_frame (replicate 8 (price_row 50 100 0 1000) @
                  map (\<lambda>c. price_row c 100 0 1000) [100, 100, 100, 100, 40, 100])"

text \<open>Sixty bars with high 100, then a bar that closes at 105 under a high of 110.\<close>

definition breakout_example :: dataframe where
  "breakout_example =
     price_frame (replicate 60 (price_row 95 100 90 1000) @ [price_row 105 110 100 1000])"

text \<open>Five bars without any volume, then a bar with volume 100.\<close>

definition zero_volume_example :: dataframe where
  "zero_volume_example =
     price_frame (replicate 5 (price_row 10 10 10 0) @ [price_row 10 10 10 100])"

text \<open>Sixty bars of volume 1000, then a bar of volume 10000.\<close>

definition surge_example :: dataframe where
  "surge_example =
     price_frame (replicate 60 (price_row 10 10 10 1000) @ [price_row 10 10 10 10000])"

definition no_conditions :: params where
  "no_conditions =
     \<lparr>min_conditions_to_pass = Some 3, market_twse = False, market_otc = False,
      volume_surge1 = None, volume_surge2 = None, volume_surge3 = None, min_volume = None,
      daily_kd_golden = False, monthly_kd_golden = False, above_ma20 = False,
      break_60d_high = False, trust_buy = None, trust_pct = None, trust_5d = None,
      trust_holding = None, inst_5d = None, margin_ratio = None, margin_5d = None,
      eps = None, roe = None, yield = None, daily_change = None, change_5d = None,
      exclude_warning = False, exclude_disposition = False, exclude_limit_up = None\<rparr>"

definition on :: "pynum \<Rightarrow> cond option" where
  "on threshold = Some \<lparr>cond_enabled = True, cond_value = threshold\<rparr>"

definition snapshot_2330 :: stock_data where
  "snapshot_2330 =
     \<lparr>sd_stock_id = Val ''2330'', sd_eps = Val (392 / 10), sd_roe = Val (285 / 10),
      sd_trust_holding = Val (8 / 10), sd_type = Val ''twse'', sd_price = None,
      sd_institutional = None, sd_margin = None\<rparr>"

text \<open>EPS above 0, ROE above 10, trust holding against 15, three conditions to pass.\<close>

definition scenario_params :: params where
  "scenario_params =
     no_conditions\<lparr>eps := on (PyInt 0), roe := on (PyInt 10), trust_holding := on (PyInt 15)\<rparr>"

definition surge_params :: params where
  "surge_params =
     no_conditions\<lparr>volume_surge1 := on (PyFloat (3 / 2)), volume_surge2 := on (PyFloat 3),
                    volume_surge3 := on (PyFloat 5)\<rparr>"

definition trust_pct_params :: params where
  "trust_pct_params = no_conditions\<lparr>min_conditions_to_pass := Some 1, trust_pct := on (PyInt 1)\<rparr>"

definition limit_up_params :: params where
  "limit_up_params =
     no_conditions\<lparr>exclude_limit_up := Some \<lparr>lim_enabled = True, lim_days = Some 7\<rparr>\<rparr>"

text \<open>An integrator whose trust-holding percentage is \<open>pct\<close> and that knows nothing else.\<close>

definition integrator_with :: "real \<Rightarrow> integrator" where
  "integrator_with pct =
     \<lparr>get_trust_holding_percentage = (\<lambda>_. pct), get_trust_holding_change = (\<lambda>_. 0),
      get_real_eps = (\<lambda>_. 0), get_real_roe = (\<lambda>_. 0), get_real_dividend_yield = (\<lambda>_ _. 0),
      warning_stocks = [], disposition_stocks = []\<rparr>"

section \<open>Which keys a result holds\<close>

lemma keys_flag_block: "map b_key (flag_block f k body) = (if f then [k] else [])"
  by (simp add: flag_block_def)

lemma keys_cond_block: "map b_key (cond_block e k body) = (if is_enabled e then [k] else [])"
  by (simp add: cond_block_def is_enabled_def split: option.split)

lemma keys_limit_block: "map b_key (limit_block e k body) = (if lim_is_enabled e then [k] else [])"
  by (simp add: limit_block_def lim_is_enabled_def Let_def split: option.split)

lemma keys_condition_blocks:
  "map b_key (condition_blocks env self sd pdf idf mdf) = enabled_keys (self_params self)"
  unfolding condition_blocks_def enabled_keys_def condition_table_def
  by (simp split del: if_split add: keys_flag_block keys_cond_block keys_limit_block)

lemma distinct_table: "distinct (map fst (condition_table p))"
  by (simp add: condition_table_def)

lemma concat_if_subset:
  "set (concat (map (\<lambda>(key, en). if en then [key] else []) t)) \<subseteq> fst ` set t"
  by (induction t) auto

lemma distinct_concat_if:
  "distinct (map fst t) \<Longrightarrow> distinct (concat (map (\<lambda>(key, en). if en then [key] else []) t))"
proof (induction t)
  case Nil
  then show ?case by simp
next
  case (Cons a t)
  obtain k en where a: "a = (k, en)" by (cases a)
  have "set (concat (map (\<lambda>(key, en). if en then [key] else []) t)) \<subseteq> fst ` set t"
    by (rule concat_if_subset)
  with Cons a show ?case by auto
qed

lemma disabled_not_in_concat_if:
  "distinct (map fst t) \<Longrightarrow> (k, False) \<in> set t \<Longrightarrow>
   k \<notin> set (concat (map (\<lambda>(key, en). if en then [key] else []) t))"
proof (induction t)
  case Nil
  then show ?case by simp
next
  case (Cons a t)
  have sub: "set (concat (map (\<lambda>(key, en). if en then [key] else []) t)) \<subseteq> fst ` set t"
    by (rule concat_if_subset)
  show ?case
  proof (cases "a = (k, False)")
    case True
    with Cons.prems sub show ?thesis by auto
  next
    case False
    with Cons show ?thesis by (cases a) (auto simp: rev_image_eqI)
  qed
qed

lemma distinct_enabled_keys: "distinct (enabled_keys p)"
  unfolding enabled_keys_def by (rule distinct_concat_if [OF distinct_table])

lemma enabled_keys_subset: "set (enabled_keys p) \<subseteq> fst ` set (condition_table p)"
  unfolding enabled_keys_def by (rule concat_if_subset)

lemma table_not_bookkeeping: "k \<in> fst ` set (condition_table p) \<Longrightarrow> k \<notin> set bookkeeping_keys"
  by (auto simp: condition_table_def bookkeeping_keys_def)

lemma enabled_not_bookkeeping: "k \<in> set (enabled_keys p) \<Longrightarrow> k \<notin> set bookkeeping_keys"
  using enabled_keys_subset [of p] table_not_bookkeeping [of k p] by blast

lemma update_new: "k \<notin> fst ` set al \<Longrightarrow> AList.update k v al = al @ [(k, v)]"
  by (induction al) auto

lemma set_update_subset: "set (AList.update k v al) \<subseteq> insert (k, v) (set al)"
  by (induction al) auto

lemma fst_record_block: "fst (record_block b st) = AList.update (b_key b) (VBool (b_passed b)) (fst st)"
  by (simp add: record_block_def)

lemma snd_record_block: "snd (record_block b st) = AList.update (b_key b) (b_display b) (snd st)"
  by (simp add: record_block_def)

lemma fold_record_keys:
  "fst ` set (fst (fold record_block bs st)) = fst ` set (fst st) \<union> b_key ` set bs"
  by (induction bs arbitrary: st) (auto simp: fst_record_block dom_update)

lemma fold_record_values_keys:
  "fst ` set (snd (fold record_block bs st)) = fst ` set (snd st) \<union> b_key ` set bs"
  by (induction bs arbitrary: st) (auto simp: snd_record_block dom_update)

lemma fold_record_bools:
  "list_all (\<lambda>e. snd e \<in> range VBool) (fst st) \<Longrightarrow>
   list_all (\<lambda>e. snd e \<in> range VBool) (fst (fold record_block bs st))"
proof (induction bs arbitrary: st)
  case Nil
  then show ?case by simp
next
  case (Cons b bs)
  have "list_all (\<lambda>e. snd e \<in> range VBool) (AList.update (b_key b) (VBool (b_passed b)) (fst st))"
    using Cons.prems set_update_subset [of "b_key b" "VBool (b_passed b)" "fst st"]
    by (auto simp: list_all_iff)
  then show ?case
    using Cons.IH [of "record_block b st"] by (simp add: fst_record_block)
qed

lemma fold_record_other:
  "k \<notin> b_key ` set bs \<Longrightarrow>
   map_of (fst (fold record_block bs st)) k = map_of (fst st) k \<and>
   map_of (snd (fold record_block bs st)) k = map_of (snd st) k"
  by (induction bs arbitrary: st) (auto simp: fst_record_block snd_record_block update_conv')

lemma fold_record_lookup:
  "distinct (map b_key bs) \<Longrightarrow> b \<in> set bs \<Longrightarrow>
   map_of (fst (fold record_block bs st)) (b_key b) = Some (VBool (b_passed b)) \<and>
   map_of (snd (fold record_block bs st)) (b_key b) = Some (b_display b)"
proof (induction bs arbitrary: st)
  case Nil
  then show ?case by simp
next
  case (Cons a bs)
  show ?case
  proof (cases "b \<in> set bs")
    case True
    with Cons show ?thesis by simp
  next
    case False
    with Cons.prems have ab: "a = b" and "b_key b \<notin> b_key ` set bs" by auto
    then show ?thesis
      using fold_record_other [of "b_key b" bs "record_block a st"]
      by (simp add: fst_record_block snd_record_block update_conv')
  qed
qed

lemma count_bools:
  "list_all (\<lambda>e. snd e \<in> range VBool) r \<Longrightarrow>
   length (filter py_eq_True (map snd r)) = length (filter (\<lambda>(key, v). v = VBool True) r)"
  by (induction r) auto

lemma keys_blocks_of: "map b_key (blocks_of env self sd) = enabled_keys (self_params self)"
  by (simp add: blocks_of_def keys_condition_blocks)

lemma set_keys_blocks_of: "b_key ` set (blocks_of env self sd) = set (enabled_keys (self_params self))"
  using keys_blocks_of [of env self sd] by (metis set_map)

lemma recorded_keys: "fst ` set (fst (recorded env self sd)) = set (enabled_keys (self_params self))"
  unfolding recorded_def fold_record_keys by (simp add: set_keys_blocks_of)

lemma recorded_values_keys:
  "fst ` set (snd (recorded env self sd)) = set (enabled_keys (self_params self))"
  unfolding recorded_def fold_record_values_keys by (simp add: set_keys_blocks_of)

lemma fold_record_entries:
  "distinct (map b_key bs) \<Longrightarrow> b_key ` set bs \<inter> fst ` set r0 = {} \<Longrightarrow>
   b_key ` set bs \<inter> fst ` set v0 = {} \<Longrightarrow>
   fold record_block bs (r0, v0) =
     (r0 @ map (\<lambda>b. (b_key b, VBool (b_passed b))) bs, v0 @ map (\<lambda>b. (b_key b, b_display b)) bs)"
proof (induction bs arbitrary: r0 v0)
  case Nil
  then show ?case by simp
next
  case (Cons b bs)
  have step: "record_block b (r0, v0) = (r0 @ [(b_key b, VBool (b_passed b))], v0 @ [(b_key b, b_display b)])"
    using Cons.prems by (simp add: record_block_def update_new)
  have "fold record_block bs (r0 @ [(b_key b, VBool (b_passed b))], v0 @ [(b_key b, b_display b)]) =
          ((r0 @ [(b_key b, VBool (b_passed b))]) @ map (\<lambda>b. (b_key b, VBool (b_passed b))) bs,
           (v0 @ [(b_key b, b_display b)]) @ map (\<lambda>b. (b_key b, b_display b)) bs)"
    using Cons.prems by (intro Cons.IH) auto
  then show ?case
    by (simp add: step)
qed

text \<open>The blocks write their verdicts and display values in their order.\<close>

lemma recorded_entries:
  "recorded env self sd =
     (map (\<lambda>b. (b_key b, VBool (b_passed b))) (blocks_of env self sd),
      map (\<lambda>b. (b_key b, b_display b)) (blocks_of env self sd))"
  unfolding recorded_def
  using fold_record_entries [of "blocks_of env self sd" "[]" "[]"] distinct_enabled_keys
  by (simp add: keys_blocks_of)

lemma recorded_bools: "list_all (\<lambda>e. snd e \<in> range VBool) (fst (recorded env self sd))"
  unfolding recorded_def by (rule fold_record_bools) simp

lemma recorded_no_bookkeeping:
  "''matched_count'' \<notin> fst ` set (fst (recorded env self sd))"
  "''passed'' \<notin> fst ` set (fst (recorded env self sd))"
  "''values'' \<notin> fst ` set (fst (recorded env self sd))"
  using enabled_not_bookkeeping [of _ "self_params self"]
  by (auto simp: recorded_keys bookkeeping_keys_def)

text \<open>The result of an evaluation: the recorded verdicts, then the three bookkeeping entries.\<close>

lemma check_all_conditions_shape:
  "snd (check_all_conditions env self (Dict sd)) =
     fst (recorded env self sd) @
       [(''matched_count'',
           VInt (int (length (filter (\<lambda>(key, v). v = VBool True) (fst (recorded env self sd)))))),
        (''passed'',
           VBool (min_conditions self
                    \<le> int (length (filter (\<lambda>(key, v). v = VBool True) (fst (recorded env self sd)))))),
        (''values'', VValues (snd (recorded env self sd)))]"
  using recorded_no_bookkeeping [of env self sd] count_bools [OF recorded_bools [of env self sd]]
  by (simp add: check_all_conditions_def Let_def recorded_def blocks_of_def update_new)

lemma verdicts_of_result:
  "verdicts (snd (check_all_conditions env self (Dict sd))) = fst (recorded env self sd)"
proof -
  have "filter (\<lambda>(key, v). key \<notin> set bookkeeping_keys) (fst (recorded env self sd))
          = fst (recorded env self sd)"
    using enabled_not_bookkeeping [of _ "self_params self"] recorded_keys [of env self sd]
    by (intro filter_True) force
  then show ?thesis
    by (simp add: verdicts_def check_all_conditions_shape) (simp add: bookkeeping_keys_def)
qed

lemma display_values_of_result:
  "display_values (snd (check_all_conditions env self (Dict sd))) = snd (recorded env self sd)"
proof -
  have "map_of (fst (recorded env self sd)) ''values'' = None"
    using recorded_no_bookkeeping(3) [of env self sd] by (simp add: map_of_eq_None_iff)
  then show ?thesis
    by (simp add: display_values_def check_all_conditions_shape map_add_def)
qed

lemma lookup_of_result:
  "k \<notin> set bookkeeping_keys \<Longrightarrow>
   map_of (snd (check_all_conditions env self (Dict sd))) k = map_of (fst (recorded env self sd)) k"
  by (simp add: check_all_conditions_shape bookkeeping_keys_def map_add_def split: option.split)


lemma bookkeeping_of_result:
  "map_of (snd (check_all_conditions env self (Dict sd))) ''matched_count'' =
     Some (VInt (int (length (filter (\<lambda>(key, v). v = VBool True)
                                 (verdicts (snd (check_all_conditions env self (Dict sd))))))))"
  "map_of (snd (check_all_conditions env self (Dict sd))) ''passed'' =
     Some (VBool (min_conditions self
                    \<le> int (length (filter (\<lambda>(key, v). v = VBool True)
                                      (verdicts (snd (check_all_conditions env self (Dict sd))))))))"
proof -
  have none: "map_of (fst (recorded env self sd)) ''matched_count'' = None"
    "map_of (fst (recorded env self sd)) ''passed'' = None"
    using recorded_no_bookkeeping [of env self sd] by (simp_all add: map_of_eq_None_iff)
  show "map_of (snd (check_all_conditions env self (Dict sd))) ''matched_count'' =
     Some (VInt (int (length (filter (\<lambda>(key, v). v = VBool True)
                                 (verdicts (snd (check_all_conditions env self (Dict sd))))))))"
    unfolding verdicts_of_result using none by (simp add: check_all_conditions_shape map_add_def)
  show "map_of (snd (check_all_conditions env self (Dict sd))) ''passed'' =
     Some (VBool (min_conditions self
                    \<le> int (length (filter (\<lambda>(key, v). v = VBool True)
                                      (verdicts (snd (check_all_conditions env self (Dict sd))))))))"
    unfolding verdicts_of_result using none by (simp add: check_all_conditions_shape map_add_def)
qed

text \<open>The verdicts and the display values of a result, block by block.\<close>

lemma verdicts_are_blocks:
  "verdicts (snd (check_all_conditions env self (Dict sd))) =
     map (\<lambda>b. (b_key b, VBool (b_passed b))) (blocks_of env self sd)"
  by (simp add: verdicts_of_result recorded_entries)


lemma verdict_lookup:
  "k \<notin> set bookkeeping_keys \<Longrightarrow>
   map_of (snd (check_all_conditions env self (Dict sd))) k =
     map_of (map (\<lambda>b. (b_key b, VBool (b_passed b))) (blocks_of env self sd)) k"
  by (simp add: lookup_of_result recorded_entries)

text \<open>A block that is off writes nothing; one that is on writes its entry.\<close>

lemma flag_block_simps:
  "flag_block False k body = []"
  "flag_block True k body = [\<lparr>b_key = k, b_passed = fst body, b_display = snd body\<rparr>]"
  by (simp_all add: flag_block_def)

lemma cond_block_simps:
  "cond_block None k f = []"
  "cond_block (on th) k f = [\<lparr>b_key = k, b_passed = fst (f th), b_display = snd (f th)\<rparr>]"
  by (simp_all add: cond_block_def on_def)

lemma limit_block_None: "limit_block None k f = []"
  by (simp add: limit_block_def)

lemmas no_conditions_simps =
  init_engine_def no_conditions_def blocks_of_def condition_blocks_def
  flag_block_simps cond_block_simps limit_block_None

section \<open>Reading one block from a result\<close>



section \<open>The volume-surge check and the trailing average\<close>

lemma length_col: "length (col df c) = length (rows df)"
  by (simp add: col_def)




section \<open>Which blocks ask the integrator\<close>

lemma check_eps_env:
  "dict_get (sd_eps sd) \<noteq> None \<Longrightarrow> check_eps_with_value env1 sd th = check_eps_with_value env2 sd th"
  by (auto simp: check_eps_with_value_def)

lemma check_roe_env:
  "dict_get (sd_roe sd) \<noteq> None \<Longrightarrow> check_roe_with_value env1 sd th = check_roe_with_value env2 sd th"
  by (auto simp: check_roe_with_value_def)

lemma check_trust_holding_env:
  "trust_holding_attr self \<noteq> None \<Longrightarrow>
   check_trust_holding_with_value env1 self i th = check_trust_holding_with_value env2 self i th"
  by (auto simp: check_trust_holding_with_value_def)

lemma cond_block_off: "\<not> is_enabled e \<Longrightarrow> cond_block e k f = []"
  by (auto simp: cond_block_def is_enabled_def split: option.split)

lemma limit_block_off: "\<not> lim_is_enabled e \<Longrightarrow> limit_block e k f = []"
  by (auto simp: limit_block_def lim_is_enabled_def split: option.split)

lemma cond_block_eq: "(is_enabled e \<Longrightarrow> f = g) \<Longrightarrow> cond_block e k f = cond_block e k g"
  by (cases "is_enabled e") (auto simp: cond_block_off)

lemma blocks_env:
  assumes "\<not> uses_integrator (self_params self) sd"
  shows "blocks_of env1 self sd = blocks_of env2 self sd"
  using assms
  apply (simp add: blocks_of_def condition_blocks_def uses_integrator_def cond_block_off
          limit_block_off flag_block_simps check_trust_holding_env [of _ env1 _ _ env2])
  apply (intro arg_cong2 [where f = "(@)"] cond_block_eq ext)
   apply (auto simp: check_eps_env [of sd env1 _ env2] check_roe_env [of sd env1 _ env2])
  done

section \<open>The example inputs, evaluated\<close>

lemma scenario_blocks:
  "map (\<lambda>b. (b_key b, VBool (b_passed b))) (blocks_of env (init_engine scenario_params) snapshot_2330)
     = [(''trust_holding'', VBool False), (''eps'', VBool True), (''roe'', VBool True)]"
  by (simp add: no_conditions_simps scenario_params_def snapshot_2330_def
        check_eps_with_value_def check_roe_with_value_def check_trust_holding_with_value_def)

lemma surge_checks:
  "check_volume_surge_with_value (Some surge_example) (PyFloat (3 / 2)) 5 = (True, 10)"
  "check_volume_surge_with_value (Some surge_example) (PyFloat 3) 20 = (True, 10)"
  "check_volume_surge_with_value (Some surge_example) (PyFloat 5) 60 = (True, 10)"
  by code_simp+

lemma surge_blocks:
  "map (\<lambda>b. (b_key b, VBool (b_passed b)))
     (blocks_of env (init_engine surge_params) (snapshot_2330\<lparr>sd_price := Some surge_example\<rparr>))
     = [(''volume_surge_1_5x'', VBool True), (''volume_surge_20d_3x'', VBool True),
        (''volume_surge_60d_5x'', VBool True)]"
  by (simp add: no_conditions_simps surge_params_def snapshot_2330_def surge_checks)






lemma trust_pct_check:
  "check_trust_pct_with_value (integrator_with pct) self None (PyInt 1) =
     (case current_stock_id self of Some cid \<Rightarrow> (1 \<le> pct, pct) | None \<Rightarrow> (False, 0))"
  by (simp add: check_trust_pct_with_value_def integrator_with_def split: option.split)

lemma trust_pct_blocks:
  "map (\<lambda>b. (b_key b, VBool (b_passed b)))
     (blocks_of (integrator_with pct) (init_engine trust_pct_params) snapshot_2330)
     = [(''trust_pct'', VBool (1 \<le> pct))]"
  by (simp add: no_conditions_simps trust_pct_params_def snapshot_2330_def trust_pct_check)

section \<open>The technical checks, characterised\<close>

lemma series_max_Max: "xs \<noteq> [] \<Longrightarrow> series_max xs = Some (Max (set xs))"
  by (cases xs) (simp_all add: Max.set_eq_fold [symmetric])

lemma length_ewm_from: "length (ewm_from a y xs) = length xs"
  by (induction xs arbitrary: y) (simp_all add: Let_def)

lemma length_ewm_mean: "length (ewm_mean c xs) = length xs"
  by (cases xs) (simp_all add: ewm_mean_def length_ewm_from)

lemma length_kd_lines:
  "length (fst (kd_lines w df)) = df_len df" "length (snd (kd_lines w df)) = df_len df"
  by (simp_all add: kd_lines_def Let_def length_ewm_mean rsv_series_def rolling_def length_col
        df_len_def)

text \<open>
  The engine's golden cross: at least 9 bars, and K crosses above D at the last bar.
  The level of K plays no part.
\<close>

lemma kd_golden_characterised:
  "fst (check_kd_golden_with_value (Some df)) \<longleftrightarrow>
     \<not> df_empty df \<and> 9 \<le> df_len df \<and>
     has_col df ''max'' \<and> has_col df ''min'' \<and> has_col df ''close'' \<and>
     iloc_neg (fst (kd_lines 9 df)) 2 \<le> iloc_neg (snd (kd_lines 9 df)) 2 \<and>
     iloc_neg (snd (kd_lines 9 df)) 1 < iloc_neg (fst (kd_lines 9 df)) 1"
  using length_kd_lines [of 9 df]
  by (auto simp: check_kd_golden_with_value_def kd_golden_with_value_def Let_def split_beta)

lemma kd_golden_needs_history:
  "df_len df < 2 \<Longrightarrow> check_kd_golden_with_value (Some df) = (False, None, None)"
  by (simp add: check_kd_golden_with_value_def kd_golden_with_value_def)

text \<open>The engine's breakout: the window of 60 highs ends with today's bar.\<close>

lemma break_60d_high_characterised:
  "fst (check_break_60d_high_with_value (Some df)) \<longleftrightarrow>
     \<not> df_empty df \<and> 60 \<le> df_len df \<and> has_col df ''max'' \<and> has_col df ''close'' \<and>
     Max (set (tail 60 (col df ''max''))) \<le> last (col df ''close'')"
proof (cases "\<not> df_empty df \<and> 60 \<le> df_len df")
  case True
  then have "tail 60 (col df ''max'') \<noteq> []"
    by (auto simp: tail_def length_col df_len_def)
  then show ?thesis
    using True by (auto simp: check_break_60d_high_with_value_def Let_def series_max_Max)
next
  case False
  then show ?thesis
    by (auto simp: check_break_60d_high_with_value_def)
qed

section \<open>The claims\<close>

text \<open>
  C1. In the result of \<open>check_all_conditions\<close> on a snapshot, \<open>matched_count\<close> is the
  number of condition verdicts that are \<open>True\<close>, and \<open>passed\<close> is true exactly when
  \<open>matched_count\<close> is at least the engine's \<open>min_conditions\<close> (which \<open>init_engine\<close> reads
  from \<open>min_conditions_to_pass\<close>). The count is taken over the verdicts alone: the
  entries \<open>matched_count\<close>, \<open>passed\<close> and \<open>values\<close> are not among them.
\<close>

theorem matched_count_counts_passed_verdicts:
  "let res = snd (check_all_conditions env self (Dict stock_data));
       matched = int (length (filter (\<lambda>(key, v). v = VBool True) (verdicts res)))
   in map_of res ''matched_count'' = Some (VInt matched) \<and>
      map_of res ''passed'' = Some (VBool (min_conditions self \<le> matched)) \<and>
      min_conditions (init_engine parameters) =
        (case min_conditions_to_pass parameters of None \<Rightarrow> 3 | Some n \<Rightarrow> n)"
  unfolding Let_def using bookkeeping_of_result [of env self stock_data]
  by (simp add: init_engine_def)

text \<open>
  C2. The engine's trust-holding condition compares the other way round: it passes when
  the holding is at or above the threshold. On the snapshot with EPS 39.2, ROE 28.5 and
  trust holding 0.8, with EPS above 0, ROE above 10 and trust holding against 15 enabled
  and three conditions to pass, the evaluation records \<open>trust_holding\<close> as failed,
  \<open>matched_count\<close> 2 and \<open>passed\<close> false.
\<close>

theorem trust_holding_passes_at_or_above_threshold:
  "check_trust_holding_with_value env (self\<lparr>trust_holding_attr := Some (Some holding)\<rparr>) inst_df threshold
     = (num_val threshold \<le> holding, holding) \<and>
   (let res = snd (check_all_conditions env (init_engine scenario_params) (Dict snapshot_2330))
    in map_of res ''eps'' = Some (VBool True) \<and> map_of res ''roe'' = Some (VBool True) \<and>
       map_of res ''trust_holding'' = Some (VBool False) \<and>
       map_of res ''matched_count'' = Some (VInt 2) \<and> map_of res ''passed'' = Some (VBool False))"
  using bookkeeping_of_result [of env "init_engine scenario_params" snapshot_2330]
  by (simp add: Let_def verdict_lookup bookkeeping_keys_def verdicts_are_blocks scenario_blocks
        check_trust_holding_with_value_def)
    (simp add: init_engine_def scenario_params_def no_conditions_def)

text \<open>
  C3. The engine's daily golden cross has no overbought guard: with at least 9 bars it
  passes exactly when K was at or below D at the previous bar and is above D at the last
  one, whatever the level of K. On fourteen bars whose K line crosses above the D line
  at the last bar with K above 82, the engine's check passes, while \<open>check_golden_cross\<close>
  of the technical calculator, which requires K below 80, rejects the same K and D lines.
\<close>

theorem kd_golden_cross_passes_when_overbought:
  "(fst (check_kd_golden_with_value (Some df)) \<longleftrightarrow>
      \<not> df_empty df \<and> 9 \<le> df_len df \<and>
      has_col df ''max'' \<and> has_col df ''min'' \<and> has_col df ''close'' \<and>
      iloc_neg (fst (kd_lines 9 df)) 2 \<le> iloc_neg (snd (kd_lines 9 df)) 2 \<and>
      iloc_neg (snd (kd_lines 9 df)) 1 < iloc_neg (fst (kd_lines 9 df)) 1) \<and>
   check_kd_golden_with_value (Some kd_example) = (True, Some (59980 / 729), Some (18940 / 243)) \<and>
   (80 :: real) \<le> 59980 / 729 \<and>
   \<not> check_golden_cross (fst (kd_lines 9 kd_example)) (snd (kd_lines 9 kd_example))"
proof -
  have "check_kd_golden_with_value (Some kd_example) = (True, Some (59980 / 729), Some (18940 / 243)) \<and>
        (80 :: real) \<le> 59980 / 729 \<and>
        \<not> check_golden_cross (fst (kd_lines 9 kd_example)) (snd (kd_lines 9 kd_example))"
    by code_simp
  then show ?thesis
    using kd_golden_characterised [of df] by blast
qed




text \<open>
  C5. No result of \<open>check_all_conditions\<close> reaches the perfect-volume bonus: the scoring
  system asks for the keys \<open>volume_surge_3x\<close> and \<open>volume_surge_5x\<close>, which the evaluation
  never writes, so the combination bonus is made of the other two bonuses alone.
\<close>

theorem perfect_volume_bonus_is_never_added:
  "\<not> perfect_volume (snd (check_all_conditions env self arg)) \<and>
   map_of (snd (check_all_conditions env self arg)) ''volume_surge_3x'' = None \<and>
   calculate_combo_bonus (snd (check_all_conditions env self arg)) =
     (let res = snd (check_all_conditions env self arg)
      in (if 2 \<le> count_matched res [''daily_kd_golden'', ''above_ma20'', ''break_60d_high''] \<and>
             2 \<le> count_matched res [''eps_positive'', ''roe_above'', ''yield_above'']
          then bonus_of ''tech_fundamental'' else 0) +
         (if 2 \<le> count_matched res [''trust_buy'', ''trust_5d'', ''inst_5d'']
          then bonus_of ''institutional_support'' else 0))"
proof -
  have none: "map_of (snd (check_all_conditions env self arg)) ''volume_surge_3x'' = None"
  proof (cases arg)
    case NotDict
    then show ?thesis by (simp add: check_all_conditions_def)
  next
    case (Dict sd)
    have "''volume_surge_3x'' \<notin> fst ` set (condition_table (self_params self))"
      by (simp add: condition_table_def)
    then have "''volume_surge_3x'' \<notin> set (enabled_keys (self_params self))"
      using enabled_keys_subset [of "self_params self"] by blast
    then have "map_of (fst (recorded env self sd)) ''volume_surge_3x'' = None"
      by (simp add: map_of_eq_None_iff recorded_keys)
    then show ?thesis
      using Dict by (simp add: lookup_of_result bookkeeping_keys_def)
  qed
  then have "\<not> perfect_volume (snd (check_all_conditions env self arg))"
    by (simp add: perfect_volume_def get_or_False_def)
  then show ?thesis
    using none by (simp add: calculate_combo_bonus_def Let_def)
qed

theorem perfect_volume_bonus_is_never_added_witness:
  "map_of (snd (check_all_conditions (integrator_with 0) (init_engine surge_params)
                  (Dict (snapshot_2330\<lparr>sd_price := Some surge_example\<rparr>))))
     ''volume_surge_1_5x'' = Some (VBool True) \<and>
   map_of (snd (check_all_conditions (integrator_with 0) (init_engine surge_params)
                  (Dict (snapshot_2330\<lparr>sd_price := Some surge_example\<rparr>))))
     ''volume_surge_20d_3x'' = Some (VBool True) \<and>
   map_of (snd (check_all_conditions (integrator_with 0) (init_engine surge_params)
                  (Dict (snapshot_2330\<lparr>sd_price := Some surge_example\<rparr>))))
     ''volume_surge_60d_5x'' = Some (VBool True) \<and>
   calculate_combo_bonus (snd (check_all_conditions (integrator_with 0) (init_engine surge_params)
                                 (Dict (snapshot_2330\<lparr>sd_price := Some surge_example\<rparr>)))) = 0"
proof -
  let ?res = "snd (check_all_conditions (integrator_with 0) (init_engine surge_params)
                     (Dict (snapshot_2330\<lparr>sd_price := Some surge_example\<rparr>)))"
  have look: "k \<notin> set bookkeeping_keys \<Longrightarrow>
      map_of ?res k = map_of [(''volume_surge_1_5x'', VBool True), (''volume_surge_20d_3x'', VBool True),
                              (''volume_surge_60d_5x'', VBool True)] k" for k
    by (simp add: verdict_lookup surge_blocks)
  have "calculate_combo_bonus ?res = 0"
    using perfect_volume_bonus_is_never_added
      [of "integrator_with 0" "init_engine surge_params"
         "Dict (snapshot_2330\<lparr>sd_price := Some surge_example\<rparr>)"]
    by (simp add: Let_def count_matched_def get_or_False_def look bookkeeping_keys_def)
  then show ?thesis
    by (simp add: look bookkeeping_keys_def)
qed

text \<open>
  C6. The engine's window of 60 highs ends with today's bar: with at least 60 bars the
  check passes exactly when the latest close is at least the highest of the last 60
  highs, today's among them. After sixty bars with high 100, a bar that closes at 105
  under a high of 110 closes above every high of the 60 bars before it, yet the engine's
  check compares 105 with 110 and fails; \<open>check_new_high\<close> of the technical calculator,
  whose window leaves today out, passes.
\<close>

theorem break_60d_high_compares_with_todays_high:
  "(fst (check_break_60d_high_with_value (Some df)) \<longleftrightarrow>
      \<not> df_empty df \<and> 60 \<le> df_len df \<and> has_col df ''max'' \<and> has_col df ''close'' \<and>
      Max (set (tail 60 (col df ''max''))) \<le> last (col df ''close'')) \<and>
   check_break_60d_high_with_value (Some breakout_example) = (False, Some 105, Some 110) \<and>
   claimed_break_60d_high breakout_example \<and> check_new_high breakout_example 60"
proof -
  have "check_break_60d_high_with_value (Some breakout_example) = (False, Some 105, Some 110) \<and>
        claimed_break_60d_high breakout_example \<and> check_new_high breakout_example 60"
    by code_simp
  then show ?thesis
    using break_60d_high_characterised [of df] by blast
qed

text \<open>
  C7. \<open>get_eps_guaranteed\<close> returns a provider's EPS only if it is strictly positive,
  and otherwise the default; when each provider raised or returned a value that is not
  positive, it returns the default, which is the table's entry for a listed instrument
  and 2.5 for any other. It always returns a number.
\<close>

theorem eps_resolution_falls_back_to_default:
  "(get_eps_guaranteed eps_from_twse eps_from_finmind stock_id = get_default_eps stock_id \<or>
    0 < get_eps_guaranteed eps_from_twse eps_from_finmind stock_id \<and>
    Some (get_eps_guaranteed eps_from_twse eps_from_finmind stock_id) \<in> {eps_from_twse, eps_from_finmind}) \<and>
   ((\<forall>v. eps_from_twse = Some v \<longrightarrow> v \<le> 0) \<and> (\<forall>v. eps_from_finmind = Some v \<longrightarrow> v \<le> 0) \<longrightarrow>
    get_eps_guaranteed eps_from_twse eps_from_finmind stock_id = get_default_eps stock_id) \<and>
   ((stock_id, d) \<in> set large_caps_eps \<longrightarrow> get_default_eps stock_id = d) \<and>
   (stock_id \<notin> fst ` set large_caps_eps \<longrightarrow> get_default_eps stock_id = 25 / 10)"
proof -
  have dist: "distinct (map fst large_caps_eps)"
    by (simp add: large_caps_eps_def)
  have listed: "get_default_eps stock_id = d" if "(stock_id, d) \<in> set large_caps_eps"
    using map_of_is_SomeI [OF dist that] by (simp add: get_default_eps_def)
  have unlisted: "get_default_eps stock_id = 25 / 10" if "stock_id \<notin> fst ` set large_caps_eps"
    using that by (simp add: get_default_eps_def map_of_eq_None_iff [symmetric])
  show ?thesis
    using listed unlisted
    by (auto simp: get_eps_guaranteed_def split: option.splits)
qed

theorem eps_resolution_falls_back_to_default_witness:
  "get_eps_guaranteed (Some 0) (Some (- 1)) ''2330'' = 392 / 10 \<and>
   get_eps_guaranteed (Some 0) None ''9999'' = 25 / 10"
proof -
  have "get_eps_guaranteed (Some 0) (Some (- 1)) ''2330'' = get_default_eps ''2330''"
    using eps_resolution_falls_back_to_default [of "Some 0" "Some (- 1)" "''2330''"] by simp
  moreover have "get_default_eps ''2330'' = 392 / 10"
    using eps_resolution_falls_back_to_default [of "Some 0" "Some (- 1)" "''2330''" "392 / 10"]
    by (simp add: large_caps_eps_def)
  moreover have "get_eps_guaranteed (Some 0) None ''9999'' = get_default_eps ''9999''"
    using eps_resolution_falls_back_to_default [of "Some 0" None "''9999''"] by simp
  moreover have "get_default_eps ''9999'' = 25 / 10"
    using eps_resolution_falls_back_to_default [of "Some 0" None "''9999''"]
    by (simp add: large_caps_eps_def)
  ultimately show ?thesis by simp
qed

text \<open>
  C8. A condition whose flag in the configuration is off leaves no entry in the result,
  neither a verdict nor a display value: the keys of the verdicts, and those of the
  display values, are exactly the keys of the enabled conditions.
\<close>

theorem disabled_condition_leaves_no_entry:
  assumes "(key, False) \<in> set (condition_table (self_params self))"
  shows "let res = snd (check_all_conditions env self (Dict stock_data))
         in map_of res key = None \<and> map_of (display_values res) key = None \<and>
            fst ` set (verdicts res) = set (enabled_keys (self_params self)) \<and>
            fst ` set (display_values res) = set (enabled_keys (self_params self))"
proof -
  have off: "key \<notin> set (enabled_keys (self_params self))"
    unfolding enabled_keys_def
    by (rule disabled_not_in_concat_if [OF distinct_table assms])
  have "key \<in> fst ` set (condition_table (self_params self))"
    using assms by (simp add: rev_image_eqI)
  then have nb: "key \<notin> set bookkeeping_keys"
    by (rule table_not_bookkeeping)
  have "map_of (fst (recorded env self stock_data)) key = None"
    using off by (simp add: map_of_eq_None_iff recorded_keys)
  moreover have "map_of (snd (recorded env self stock_data)) key = None"
    using off by (simp add: map_of_eq_None_iff recorded_values_keys)
  ultimately show ?thesis
    unfolding Let_def verdicts_of_result display_values_of_result lookup_of_result [OF nb]
    by (simp add: recorded_keys recorded_values_keys)
qed

theorem disabled_condition_leaves_no_entry_witness:
  "(''roe'', False) \<in> set (condition_table (self_params (init_engine no_conditions))) \<and>
   map_of (snd (check_all_conditions (integrator_with 0) (init_engine no_conditions) (Dict snapshot_2330)))
     ''roe'' = None"
proof -
  have off: "(''roe'', False) \<in> set (condition_table (self_params (init_engine no_conditions)))"
    by (simp add: condition_table_def init_engine_def no_conditions_def is_enabled_def)
  show ?thesis
    using off disabled_condition_leaves_no_entry [OF off, of "integrator_with 0" snapshot_2330]
    by (simp add: Let_def)
qed

text \<open>
  C9, as the claim states it, fails: the trust-holding percentage is asked of the
  integrator during the evaluation, so two evaluations of one snapshot under one
  configuration differ when the integrator answers 0.5 the first time and 2 the second.
\<close>

theorem evaluation_differs_when_integrator_differs:
  "snd (check_all_conditions (integrator_with (1 / 2)) (init_engine trust_pct_params) (Dict snapshot_2330)) \<noteq>
   snd (check_all_conditions (integrator_with 2)
          (fst (check_all_conditions (integrator_with (1 / 2)) (init_engine trust_pct_params)
                  (Dict snapshot_2330)))
          (Dict snapshot_2330))"
proof -
  let ?r1 = "snd (check_all_conditions (integrator_with (1 / 2)) (init_engine trust_pct_params)
                    (Dict snapshot_2330))"
  let ?e1 = "fst (check_all_conditions (integrator_with (1 / 2)) (init_engine trust_pct_params)
                    (Dict snapshot_2330))"
  let ?r2 = "snd (check_all_conditions (integrator_with 2) ?e1 (Dict snapshot_2330))"
  have e1: "blocks_of env ?e1 sd = blocks_of env (init_engine trust_pct_params) sd" for env sd
    by (simp add: check_all_conditions_def Let_def blocks_of_def condition_blocks_def
          check_trust_pct_with_value_def check_trust_holding_with_value_def
          check_not_limit_up_with_value_def)
  have "map_of ?r1 ''trust_pct'' = Some (VBool False)"
    by (simp add: verdict_lookup bookkeeping_keys_def trust_pct_blocks)
  moreover have "map_of ?r2 ''trust_pct'' = Some (VBool True)"
    by (simp add: verdict_lookup bookkeeping_keys_def e1 trust_pct_blocks)
  ultimately show ?thesis by auto
qed

text \<open>
  C9, amended. Evaluation is deterministic in the snapshot, the configuration and the
  answers of the integrator: a second call with the same three, on the engine the first
  call left, gives the same result; and when no enabled condition asks the integrator,
  the result is the same whatever the integrator would answer.
\<close>

theorem evaluation_deterministic_given_integrator:
  "snd (check_all_conditions env (fst (check_all_conditions env self arg)) arg)
     = snd (check_all_conditions env self arg) \<and>
   (\<not> uses_integrator (self_params self) sd \<longrightarrow>
    snd (check_all_conditions env1 self (Dict sd)) = snd (check_all_conditions env2 self (Dict sd)))"
proof -
  have again: "snd (check_all_conditions env (fst (check_all_conditions env self arg)) arg)
                 = snd (check_all_conditions env self arg)"
    by (cases arg) (simp_all add: check_all_conditions_def Let_def)
  have "snd (check_all_conditions env1 self (Dict sd)) = snd (check_all_conditions env2 self (Dict sd))"
    if "\<not> uses_integrator (self_params self) sd"
    by (simp add: check_all_conditions_shape recorded_def blocks_env [OF that, of env1 env2])
  with again show ?thesis by simp
qed

theorem evaluation_deterministic_given_integrator_witness:
  "\<not> uses_integrator (self_params (init_engine scenario_params)) snapshot_2330 \<and>
   snd (check_all_conditions (integrator_with 0) (init_engine scenario_params) (Dict snapshot_2330))
     = snd (check_all_conditions (integrator_with 5) (init_engine scenario_params) (Dict snapshot_2330))"
proof -
  have quiet: "\<not> uses_integrator (self_params (init_engine scenario_params)) snapshot_2330"
    by (simp add: uses_integrator_def init_engine_def scenario_params_def no_conditions_def
          snapshot_2330_def is_enabled_def lim_is_enabled_def)
  show ?thesis
    using quiet evaluation_deterministic_given_integrator
      [of "integrator_with 0" "init_engine scenario_params" "Dict snapshot_2330" snapshot_2330
         "integrator_with 0" "integrator_with 5"]
    by simp
qed

text \<open>
  C10. With fewer bars than the configured number of days, the exclusion of consecutive
  limit-up days passes and reports zero days: the check returns \<open>(True, 0)\<close>, and the
  evaluation records the verdict \<open>True\<close> with a display value of 0 days.
\<close>

theorem limit_up_exclusion_passes_on_short_history:
  assumes "exclude_limit_up (self_params self) = Some c" and "lim_enabled c"
    and "days = (case lim_days c of None \<Rightarrow> 3 | Some n \<Rightarrow> n)"
    and "sd_price stock_data = Some df" and "int (df_len df) < days"
  shows "check_not_limit_up_with_value env any_self (Some df) days = (True, 0) \<and>
         (let res = snd (check_all_conditions env self (Dict stock_data))
          in map_of res ''not_limit_up'' = Some (VBool True) \<and>
             map_of (display_values res) ''not_limit_up'' =
               Some (txt_limit_up @ ''0'' @ txt_days_threshold_lt @ str_int days @ txt_days_close))"
proof -
  have chk: "check_not_limit_up_with_value env s (Some df) days = (True, 0)" for s
    using assms(5) by (simp add: check_not_limit_up_with_value_def)
  define self1 where "self1 = self\<lparr>current_stock_id := Some (dict_get (sd_stock_id stock_data)),
      eps_attr := Some (dict_get_default (sd_eps stock_data) 0),
      roe_attr := Some (dict_get_default (sd_roe stock_data) 0),
      trust_holding_attr := Some (dict_get_default (sd_trust_holding stock_data) 0)\<rparr>"
  define b where "b = \<lparr>b_key = ''not_limit_up'', b_passed = True,
      b_display = txt_limit_up @ ''0'' @ txt_days_threshold_lt @ str_int days @ txt_days_close\<rparr>"
  define bs where "bs = condition_blocks env self1 stock_data (sd_price stock_data)
      (map_option (\<lambda>df. df\<lparr>attrs_stock_id := dict_get (sd_stock_id stock_data)\<rparr>)
         (sd_institutional stock_data)) (sd_margin stock_data)"
  have zero: "str_int 0 = ''0''"
    by (simp add: str_int_def str_nat.simps digit_char_def)
  have "limit_block (exclude_limit_up (self_params self1)) ''not_limit_up''
          (\<lambda>days. let (passed, limit_days) = check_not_limit_up_with_value env self1 (sd_price stock_data) days
                   in (passed, txt_limit_up @ str_int (int limit_days) @ txt_days_threshold_lt
                                 @ str_int days @ txt_days_close)) = [b]"
    using assms(1-4) chk [of self1] by (simp add: limit_block_def self1_def b_def zero)
  then have mem: "b \<in> set bs"
    unfolding bs_def condition_blocks_def by simp
  have dist: "distinct (map b_key bs)"
    unfolding bs_def keys_condition_blocks by (rule distinct_enabled_keys)
  have rec: "recorded env self stock_data = fold record_block bs ([], [])"
    by (simp add: recorded_def blocks_of_def bs_def self1_def)
  have "map_of (fst (recorded env self stock_data)) ''not_limit_up'' = Some (VBool True)"
    and "map_of (snd (recorded env self stock_data)) ''not_limit_up''
           = Some (txt_limit_up @ ''0'' @ txt_days_threshold_lt @ str_int days @ txt_days_close)"
    using fold_record_lookup [OF dist mem, of "([], [])"] by (simp_all add: rec b_def)
  then show ?thesis
    using chk [of any_self]
    by (simp add: Let_def display_values_of_result lookup_of_result bookkeeping_keys_def)
qed

theorem limit_up_exclusion_passes_on_short_history_witness:
  "check_not_limit_up_with_value (integrator_with 0) (init_engine limit_up_params)
     (Some zero_volume_example) 7 = (True, 0) \<and>
   map_of (snd (check_all_conditions (integrator_with 0) (init_engine limit_up_params)
                  (Dict (snapshot_2330\<lparr>sd_price := Some zero_volume_example\<rparr>))))
     ''not_limit_up'' = Some (VBool True)"
proof -
  have len: "int (df_len zero_volume_example) < 7"
    by (simp add: zero_volume_example_def price_frame_def df_len_def)
  have cfg: "exclude_limit_up (self_params (init_engine limit_up_params))
               = Some \<lparr>lim_enabled = True, lim_days = Some 7\<rparr>"
    by (simp add: init_engine_def limit_up_params_def no_conditions_def)
  show ?thesis
    using limit_up_exclusion_passes_on_short_history
      [OF cfg _ _ _ len, of "snapshot_2330\<lparr>sd_price := Some zero_volume_example\<rparr>"
         "integrator_with 0" "init_engine limit_up_params"]
    by (simp add: Let_def)
qed

end
